theory Spec2Isabelle
  imports Complex_Main "HOL-Library.Log_Nat"
begin

section \<open>JavaScript values used by the inspection application\<close>

text \<open>
  The source holds several variants of one inspection application, each a React
  component written in TypeScript. The model follows the variant that keeps a ledger of
  counts per defect key (its state, its ledger updates, its sample-size table and its
  score), and adds the sample-size tables and the scores of the variants in
  \<open>index.tsx\<close>. Counts, unit numbers and sample sizes are integers
  (\<^typ>\<open>int\<close>). Weights and scores are modelled twice. The scores \<open>score\<close>,
  \<open>score_index\<close> and \<open>reacScore\<close> compute with exact rationals (\<^typ>\<open>rat\<close>);
  they carry the properties that no rounding touches: which entries are counted, which
  findings are critical, what a ledger update keeps. The scores \<open>score_double\<close> and
  \<open>score_index_double\<close> compute as the source does, with IEEE 754 binary64 numbers,
  every operation rounded to the nearest double; the properties of the printed values and
  of the thresholds are stated for them. In the exact model \<open>NaN\<close> and \<open>undefined\<close> are
  \<^term>\<open>None\<close>. A string is
  a list of characters with codes below 256. An object used as a dictionary
  (\<open>Record<string, T>\<close>) is the list of its own entries in enumeration order; the keys
  the application builds all contain \<open>-\<close>, so none of them is an inherited property name
  or an array index, for which JavaScript would enumerate or look up differently.
\<close>

subsection \<open>Strings and numbers\<close>

text \<open>\<open>s.split(sep)\<close> for a one-character separator: never empty, keeps empty pieces.\<close>

fun split_on :: "char \<Rightarrow> string \<Rightarrow> string list" where
  "split_on sep [] = [[]]"
| "split_on sep (c # cs) =
     (if c = sep then [] # split_on sep cs
      else (case split_on sep cs of
              [] \<Rightarrow> [[c]]
            | p # ps \<Rightarrow> (c # p) # ps))"

text \<open>Array destructuring \<open>const [a, b, ...] = xs\<close>: a missing position is \<open>undefined\<close>.\<close>

fun nth_opt :: "'a list \<Rightarrow> nat \<Rightarrow> 'a option" where
  "nth_opt [] n = None"
| "nth_opt (x # xs) 0 = Some x"
| "nth_opt (x # xs) (Suc n) = nth_opt xs n"

text \<open>\<open>xs[i]\<close> for an array and a number: \<open>undefined\<close> for \<open>NaN\<close> and out of range.\<close>

definition array_get :: "'a list \<Rightarrow> int option \<Rightarrow> 'a option" where
  "array_get xs i =
     (case i of
        None \<Rightarrow> None
      | Some n \<Rightarrow> if 0 \<le> n \<and> n < int (length xs) then nth_opt xs (nat n) else None)"

text \<open>\<open>String(v)\<close> of a string that may be \<open>undefined\<close>.\<close>

definition to_string :: "string option \<Rightarrow> string" where
  "to_string v = (case v of None \<Rightarrow> ''undefined'' | Some s \<Rightarrow> s)"

definition is_ws :: "char \<Rightarrow> bool" where
  "is_ws c = ((of_char c :: nat) \<in> {9, 10, 11, 12, 13, 32, 160})"

definition is_digit :: "char \<Rightarrow> bool" where
  "is_digit c = (48 \<le> (of_char c :: nat) \<and> (of_char c :: nat) \<le> 57)"

definition digit_val :: "char \<Rightarrow> int" where
  "digit_val c = int (of_char c) - 48"

text \<open>
  \<open>parseInt(s, 10)\<close>: leading white space is skipped, a sign is read, then the longest
  run of decimal digits; no digit gives \<open>NaN\<close>.
\<close>

definition parseInt :: "string \<Rightarrow> int option" where
  "parseInt s =
     (let t = dropWhile is_ws s;
          neg = (case t of [] \<Rightarrow> False | c # r \<Rightarrow> c = CHR ''-'');
          u = (case t of [] \<Rightarrow> [] | c # r \<Rightarrow> if c = CHR ''-'' \<or> c = CHR ''+'' then r else t);
          ds = takeWhile is_digit u
      in if ds = [] then None
         else Some ((if neg then - 1 else 1) * foldl (\<lambda>a c. 10 * a + digit_val c) 0 ds))"

text \<open>The decimal digits of a natural number, as \<open>String(n)\<close> prints an integer.\<close>

function digits :: "nat \<Rightarrow> string" where
  "digits n =
     (if n < 10 then [''0123456789'' ! n]
      else digits (n div 10) @ [''0123456789'' ! (n mod 10)])"
  by pat_completeness auto
termination
  by (relation "measure id") auto

declare digits.simps [simp del]

definition show_int :: "int \<Rightarrow> string" where
  "show_int i = (if i < 0 then ''-'' @ digits (nat (- i)) else digits (nat i))"

text \<open>
  \<open>x.toFixed(f)\<close>: the integer \<open>n\<close> nearest to \<open>|x| * 10^f\<close> (the larger one on a
  tie), printed with \<open>f\<close> digits after the point; below \<open>10^21\<close>, where JavaScript changes
  to exponent notation.
\<close>

definition toFixed :: "nat \<Rightarrow> rat \<Rightarrow> string" where
  "toFixed f x =
     (let n = nat \<lfloor>\<bar>x\<bar> * 10 ^ f + 1 / 2\<rfloor>;
          m = digits n;
          padded = replicate (Suc f - length m) CHR ''0'' @ m;
          k = length padded
      in (if x < 0 then ''-'' else '''') @
         (if f = 0 then m else take (k - f) padded @ ''.'' @ drop (k - f) padded))"

text \<open>
  Writing \<open>obj[key] = v\<close> into a copy of an object (\<open>{ ...obj, [key]: v }\<close>): an existing
  entry keeps its place, a new one goes last.
\<close>

fun obj_set :: "(string \<times> 'a) list \<Rightarrow> string \<Rightarrow> 'a \<Rightarrow> (string \<times> 'a) list" where
  "obj_set [] key v = [(key, v)]"
| "obj_set ((k, w) # es) key v =
     (if k = key then (key, v) # es else (k, w) # obj_set es key v)"

subsection \<open>Numbers as IEEE doubles\<close>

text \<open>
  A JavaScript number is a binary64 value: a finite one, given here by the rational it
  denotes, one of the two infinities, or \<open>NaN\<close>. The two zeros are one value; the score
  never divides by a zero and never prints a negative one, so nothing it returns tells
  them apart.
\<close>

datatype js_number = Fin rat | PosInf | NegInf | NaN

text \<open>The exponent of a positive rational: the \<open>e\<close> with \<open>2^e \<le> x < 2^(e + 1)\<close>.\<close>

definition ilog2 :: "rat \<Rightarrow> int" where
  "ilog2 x =
     (case quotient_of x of
        (a, b) \<Rightarrow>
          (let d = bitlen a - bitlen b
           in if 2 powi d \<le> x then d else d - 1))"

definition round_half_even :: "rat \<Rightarrow> int" where
  "round_half_even y =
     (let f = \<lfloor>y\<rfloor>; r = y - of_int f
      in if r < 1 / 2 then f
         else if 1 / 2 < r then f + 1
         else if even f then f else f + 1)"

text \<open>
  The double nearest to a rational, ties to the even significand: 53 bits of
  significand above the exponent \<open>-1074\<close> of the subnormal numbers, and infinity from
  \<open>2^1024 - 2^970\<close> on.
\<close>

definition round_double :: "rat \<Rightarrow> js_number" where
  "round_double x =
     (if x = 0 then Fin 0
      else
        (let q = max (ilog2 \<bar>x\<bar> - 52) (- 1074);
             m = round_half_even (\<bar>x\<bar> / 2 powi q)
         in if 971 < q \<or> (q = 971 \<and> 2 ^ 53 \<le> m)
            then (if x < 0 then NegInf else PosInf)
            else Fin ((if x < 0 then - 1 else 1) * of_int m * 2 powi q)))"

text \<open>
  An integer of the model read as a number. The integers the application holds are
  doubles already, so for them this is the identity.
\<close>

definition js_of_int :: "int \<Rightarrow> js_number" where
  "js_of_int n = round_double (of_int n)"

text \<open>
  The operations of the language on numbers: the exact result rounded, and the results
  the standard gives for infinities and \<open>NaN\<close>. A comparison with \<open>NaN\<close> is
  false, and \<open>Math.max\<close> of a \<open>NaN\<close> is \<open>NaN\<close>.
\<close>

fun js_neg :: "js_number \<Rightarrow> js_number" where
  "js_neg (Fin a) = Fin (- a)"
| "js_neg PosInf = NegInf"
| "js_neg NegInf = PosInf"
| "js_neg NaN = NaN"

fun js_add :: "js_number \<Rightarrow> js_number \<Rightarrow> js_number" where
  "js_add (Fin a) (Fin b) = round_double (a + b)"
| "js_add NaN y = NaN"
| "js_add x NaN = NaN"
| "js_add PosInf NegInf = NaN"
| "js_add NegInf PosInf = NaN"
| "js_add PosInf y = PosInf"
| "js_add x PosInf = PosInf"
| "js_add NegInf y = NegInf"
| "js_add x NegInf = NegInf"

definition js_sub :: "js_number \<Rightarrow> js_number \<Rightarrow> js_number" where
  "js_sub x y = js_add x (js_neg y)"

definition js_sign :: "js_number \<Rightarrow> int" where
  "js_sign x =
     (case x of
        Fin a \<Rightarrow> (if a < 0 then - 1 else if a = 0 then 0 else 1)
      | PosInf \<Rightarrow> 1
      | NegInf \<Rightarrow> - 1
      | NaN \<Rightarrow> 0)"

definition js_signed_inf :: "int \<Rightarrow> js_number" where
  "js_signed_inf sg = (if sg < 0 then NegInf else if sg = 0 then NaN else PosInf)"

fun js_mul :: "js_number \<Rightarrow> js_number \<Rightarrow> js_number" where
  "js_mul (Fin a) (Fin b) = round_double (a * b)"
| "js_mul NaN y = NaN"
| "js_mul x NaN = NaN"
| "js_mul x y = js_signed_inf (js_sign x * js_sign y)"

fun js_div :: "js_number \<Rightarrow> js_number \<Rightarrow> js_number" where
  "js_div (Fin a) (Fin b) =
     (if b = 0 then js_signed_inf (js_sign (Fin a)) else round_double (a / b))"
| "js_div NaN y = NaN"
| "js_div x NaN = NaN"
| "js_div (Fin a) y = Fin 0"
| "js_div x (Fin b) = js_signed_inf (js_sign x * (if b < 0 then - 1 else 1))"
| "js_div x y = NaN"

fun js_lt :: "js_number \<Rightarrow> js_number \<Rightarrow> bool" where
  "js_lt (Fin a) (Fin b) = (a < b)"
| "js_lt NaN y = False"
| "js_lt x NaN = False"
| "js_lt x NegInf = False"
| "js_lt PosInf y = False"
| "js_lt x y = True"

definition js_gt :: "js_number \<Rightarrow> js_number \<Rightarrow> bool" where
  "js_gt x y = js_lt y x"

fun js_ge :: "js_number \<Rightarrow> js_number \<Rightarrow> bool" where
  "js_ge NaN y = False"
| "js_ge x NaN = False"
| "js_ge x y = (\<not> js_lt x y)"

fun js_max :: "js_number \<Rightarrow> js_number \<Rightarrow> js_number" where
  "js_max NaN y = NaN"
| "js_max x NaN = NaN"
| "js_max x y = (if js_lt x y then y else x)"

text \<open>
  \<open>x.toFixed(f)\<close> of a number prints the exact value of the double, and
  \<open>parseInt(s, 10)\<close> gives the double nearest to the integer read.
\<close>

fun js_toFixed :: "nat \<Rightarrow> js_number \<Rightarrow> string" where
  "js_toFixed f (Fin a) = toFixed f a"
| "js_toFixed f PosInf = ''Infinity''"
| "js_toFixed f NegInf = ''-Infinity''"
| "js_toFixed f NaN = ''NaN''"

definition js_parseInt :: "string \<Rightarrow> js_number" where
  "js_parseInt s = (case parseInt s of None \<Rightarrow> NaN | Some n \<Rightarrow> js_of_int n)"

section \<open>The defect catalogue\<close>

text \<open>
  \<open>DEFECT_DATA\<close> of the application, with the fields the computations read: the texts
  \<open>requirement\<close> and \<open>education\<close> of an item are only displayed and are left out.
  \<open>defects\<close> maps a severity (\<open>low\<close>, \<open>moderate\<close>, \<open>severe\<close>) to a list of defects;
  \<open>lt\<close> is optional in the source and absent means false.
\<close>

record Defect =
  description :: string
  weight :: rat
  lt :: bool

record Item =
  name :: string
  defects :: "(string \<times> Defect list) list"

record Category =
  category :: string
  items :: "Item list"

record Defect_Data =
  outside :: "Category list"
  inside :: "Category list"

definition DEFECT_DATA_outside :: "Category list" where
  \<open>DEFECT_DATA_outside = [
    \<lparr>category = ''Site / Appeal'', items = [
      \<lparr>name = ''Litter'', defects = [
        (''low'', [
          \<lparr>description = ''10 small items (food wrapper, paper, etc.) noted within 100sf area'',
            weight = 1 / 10, lt = False\<rparr>,
          \<lparr>description = ''Any large item discarded incorrectly (furniture, etc.)'',
            weight = 1 / 10, lt = False\<rparr>])]\<rparr>,
      \<lparr>name = ''Site Drainage'', defects = [
        (''low'', [
          \<lparr>description = ''Evidence of clogged drains (culvert, swale, ditch, etc.)'',
            weight = 1 / 10, lt = False\<rparr>]),
        (''moderate'', [
          \<lparr>description = ''Provided grate/cover no longer secure or missing'',
            weight = 1 / 5, lt = False\<rparr>])]\<rparr>]\<rparr>,
    \<lparr>category = ''Walks and Parking'', items = [
      \<lparr>name = ''Handrails'', defects = [
        (''low'', [
          \<lparr>description = ''Handrail is missing where needed without evidence of previous installation'',
            weight = 0, lt = False\<rparr>]),
        (''moderate'', [
          \<lparr>description = ''Handrail loose'',
            weight = 1 / 5, lt = False\<rparr>,
          \<lparr>description = ''Missing with evidence of previous install'',
            weight = 0, lt = False\<rparr>,
          \<lparr>description = ''Incorrect installation'',
            weight = 1 / 5, lt = False\<rparr>])]\<rparr>,
      \<lparr>name = ''Parking Lot'', defects = [
        (''moderate'', [
          \<lparr>description = ''At least 1 pothole 4" deep and 1sf diameter'',
            weight = 1 / 5, lt = False\<rparr>,
          \<lparr>description = ''>3" of ponding covering >=5% of parking'',
            weight = 1 / 5, lt = False\<rparr>])]\<rparr>,
      \<lparr>name = ''Roads/Drives'', defects = [
        (''moderate'', [
          \<lparr>description = ''At least 1 pothole 4" deep and 1sf diameter'',
            weight = 1 / 5, lt = False\<rparr>]),
        (''severe'', [
          \<lparr>description = ''Access to property is blocked/impassable'',
            weight = 11 / 20, lt = False\<rparr>])]\<rparr>,
      \<lparr>name = ''Walks & Ramps'', defects = [
        (''moderate'', [
          \<lparr>description = ''Blockage creating a lack of clear travel'',
            weight = 1 / 5, lt = False\<rparr>,
          \<lparr>description = ''Not functional (severely damaged)'',
            weight = 1 / 5, lt = False\<rparr>])]\<rparr>,
      \<lparr>name = ''Stairs and Steps'', defects = [
        (''moderate'', [
          \<lparr>description = ''Missing tread'',
            weight = 1 / 5, lt = False\<rparr>,
          \<lparr>description = ''Loose/unlevel tread'',
            weight = 1 / 5, lt = False\<rparr>,
          \<lparr>description = ''Nosing damage >1" deep or 4" wide'',
            weight = 1 / 5, lt = False\<rparr>,
          \<lparr>description = ''Stringer damaged (rot, severe rust, cracks, etc.)'',
            weight = 1 / 5, lt = False\<rparr>])]\<rparr>,
      \<lparr>name = ''Trip Hazard'', defects = [
        (''moderate'', [
          \<lparr>description = ([CHR 0xBE] @ '' inch vertical deviation''),
            weight = 1 / 5, lt = False\<rparr>,
          \<lparr>description = ''2-inch horizontal separation'',
            weight = 1 / 5, lt = False\<rparr>])]\<rparr>]\<rparr>,
    \<lparr>category = ''Doors'', items = [
      \<lparr>name = ''Garage Door'', defects = [
        (''moderate'', [
          \<lparr>description = ''Any size penetrating hole noted'',
            weight = 1 / 5, lt = False\<rparr>,
          \<lparr>description = ''Door won't open, stay open or close correctly (includes auto openers)'',
            weight = 1 / 5, lt = False\<rparr>])]\<rparr>,
      \<lparr>name = ''General Door (Non-Entry/Fire)'', defects = [
        (''moderate'', [
          \<lparr>description = ''Hardware or surface damage, inoperable or missing that impacts function'',
            weight = 1 / 5, lt = False\<rparr>])]\<rparr>]\<rparr>,
    \<lparr>category = ''Electrical'', items = [
      \<lparr>name = ''Enclosures'', defects = [
        (''moderate'', [
          \<lparr>description = ''Service/breaker panel is blocked or difficult to access'',
            weight = 1 / 5, lt = False\<rparr>]),
        (''severe'', [
          \<lparr>description = ''Water intrusion, rust or foreign substance over components'',
            weight = 11 / 20, lt = False\<rparr>,
          \<lparr>description = ''Damaged breakers'',
            weight = 9 / 4, lt = True\<rparr>,
          \<lparr>description = ''Foreign material (non-UL listed material) used for repair'',
            weight = 11 / 20, lt = False\<rparr>])]\<rparr>,
      \<lparr>name = ''Outlets / Switches & GFCI'', defects = [
        (''severe'', [
          \<lparr>description = ''GFCI/AFCI inoperable'',
            weight = 11 / 20, lt = False\<rparr>,
          \<lparr>description = ''GFCI missing where required'',
            weight = 11 / 20, lt = False\<rparr>,
          \<lparr>description = ''Ungrounded or incorrect wiring noted'',
            weight = 11 / 20, lt = False\<rparr>,
          \<lparr>description = ''Outlet not energized'',
            weight = 11 / 20, lt = False\<rparr>])]\<rparr>,
      \<lparr>name = ''Wires or Conductors'', defects = [
        (''severe'', [
          \<lparr>description = ''Outlet/switch damaged - no longer safe'',
            weight = 9 / 4, lt = True\<rparr>,
          \<lparr>description = ''Damaged or missing cover (includes wall mounted lights)'',
            weight = 9 / 4, lt = False\<rparr>,
          \<lparr>description = ''Missing knockout'',
            weight = 9 / 4, lt = False\<rparr>,
          \<lparr>description = ''Open breaker port'',
            weight = 9 / 4, lt = False\<rparr>,
          \<lparr>description = ''>1/2" gap noted'',
            weight = 9 / 4, lt = False\<rparr>,
          \<lparr>description = ''Exposed wire nuts'',
            weight = 9 / 4, lt = True\<rparr>,
          \<lparr>description = ''Unshielded wires noted (damaged covering)'',
            weight = 9 / 4, lt = True\<rparr>])]\<rparr>,
      \<lparr>name = ''Lighting'', defects = [
        (''moderate'', [
          \<lparr>description = ''Missing with evidence of previous installation'',
            weight = 1 / 5, lt = False\<rparr>,
          \<lparr>description = ''Damage impacts function'',
            weight = 1 / 5, lt = False\<rparr>,
          \<lparr>description = ''Not securely attached or pole is unstable'',
            weight = 1 / 5, lt = False\<rparr>])]\<rparr>]\<rparr>,
    \<lparr>category = ''Fire Safety'', items = [
      \<lparr>name = ''Chimney'', defects = [
        (''severe'', [
          \<lparr>description = ''Chimney/flue or firebox damaged/unsafe'',
            weight = 9 / 4, lt = True\<rparr>])]\<rparr>,
      \<lparr>name = ''Egress'', defects = [
        (''severe'', [
          \<lparr>description = ''Structural failure noted (leaning, etc.)'',
            weight = 9 / 4, lt = True\<rparr>,
          \<lparr>description = ''Exit point is obstructed (locked gate, debris, etc.)'',
            weight = 9 / 4, lt = True\<rparr>])]\<rparr>,
      \<lparr>name = ''Exit Signs'', defects = [
        (''severe'', [
          \<lparr>description = (''Obscured from view (d'' @ [CHR 0xE9] @ ''cor, plants, etc.)''),
            weight = 9 / 4, lt = True\<rparr>,
          \<lparr>description = ''Not securely attached'',
            weight = 9 / 4, lt = True\<rparr>,
          \<lparr>description = ''Missing where evidence of previous install'',
            weight = 9 / 4, lt = True\<rparr>,
          \<lparr>description = ''No illumination (either internal or adjacent)'',
            weight = 9 / 4, lt = True\<rparr>,
          \<lparr>description = ''Test button inop'',
            weight = 9 / 4, lt = True\<rparr>])]\<rparr>,
      \<lparr>name = ''Fire Escapes'', defects = [
        (''severe'', [
          \<lparr>description = ''Stairs, ladder, platform or handrails are damaged/missing'',
            weight = 9 / 4, lt = True\<rparr>])]\<rparr>,
      \<lparr>name = ''Fire Extinguisher'', defects = [
        (''severe'', [
          \<lparr>description = ''Under/over charged'',
            weight = 9 / 4, lt = True\<rparr>,
          \<lparr>description = ''Missing with evidence of prior installation'',
            weight = 9 / 4, lt = True\<rparr>,
          \<lparr>description = ''Rechargeable: Missing or expired tag'',
            weight = 9 / 4, lt = True\<rparr>,
          \<lparr>description = ''Damage (impacting function)'',
            weight = 9 / 4, lt = True\<rparr>,
          \<lparr>description = ''Disposable: Extinguisher >12 years old'',
            weight = 9 / 4, lt = True\<rparr>])]\<rparr>,
      \<lparr>name = ''Flammable & Combustible Items'', defects = [
        (''severe'', [
          \<lparr>description = ''Flammable/combustible item within 3 feet of ignition source (furnace, heater, etc.)'',
            weight = 9 / 4, lt = True\<rparr>])]\<rparr>,
      \<lparr>name = ''Sprinkler Assembly'', defects = [
        (''severe'', [
          \<lparr>description = ''Obstructions placed within 18" of head'',
            weight = 9 / 4, lt = True\<rparr>,
          \<lparr>description = ''Significant paint/foreign material noted on 75% of assembly'',
            weight = 9 / 4, lt = False\<rparr>,
          \<lparr>description = ''Escutcheon / concealed cover plate missing'',
            weight = 9 / 4, lt = False\<rparr>,
          \<lparr>description = ''Assembly damaged or corroded'',
            weight = 9 / 4, lt = False\<rparr>])]\<rparr>]\<rparr>,
    \<lparr>category = ''General Safety'', items = [
      \<lparr>name = ''Guardrails'', defects = [
        (''severe'', [
          \<lparr>description = ''Guardrail is missing where required'',
            weight = 9 / 4, lt = True\<rparr>,
          \<lparr>description = ''Incorrect height'',
            weight = 9 / 4, lt = False\<rparr>,
          \<lparr>description = ''Missing or loose components impacting function'',
            weight = 9 / 4, lt = False\<rparr>])]\<rparr>,
      \<lparr>name = ''Infestation'', defects = [
        (''moderate'', [
          \<lparr>description = ''Evidence of rats (droppings, burrows, chewed holes, etc.)'',
            weight = 1 / 5, lt = False\<rparr>])]\<rparr>,
      \<lparr>name = ''Sharp Edges'', defects = [
        (''severe'', [
          \<lparr>description = ''Sharp edge noted (likely to require professional medical treatment)'',
            weight = 11 / 20, lt = False\<rparr>])]\<rparr>]\<rparr>,
    \<lparr>category = ''Roofing Area'', items = [
      \<lparr>name = ''Lead-based Paint'', defects = [
        (''moderate'', [
          \<lparr>description = ''<20 sf of deterioration (chipping, cracking, chalking, etc.)'',
            weight = 1 / 5, lt = False\<rparr>]),
        (''severe'', [
          \<lparr>description = ''>20 sf of deterioration (chipping, cracking, chalking, etc.)'',
            weight = 9 / 4, lt = True\<rparr>])]\<rparr>,
      \<lparr>name = ''Guttering'', defects = [
        (''moderate'', [
          \<lparr>description = ''Debris limiting the drain or gutter'',
            weight = 1 / 5, lt = False\<rparr>,
          \<lparr>description = ''Gutter component missing or not securely attached'',
            weight = 1 / 5, lt = False\<rparr>,
          \<lparr>description = ''Gutter component damaged and impacting function'',
            weight = 1 / 5, lt = False\<rparr>])]\<rparr>,
      \<lparr>name = ''Roofing Material'', defects = [
        (''moderate'', [
          \<lparr>description = ''25 sf of ponding noted'',
            weight = 1 / 5, lt = False\<rparr>,
          \<lparr>description = ''Damage/missing roofing exposing substrate'',
            weight = 1 / 5, lt = False\<rparr>])]\<rparr>,
      \<lparr>name = ''Soffit/Fascia'', defects = [
        (''moderate'', [
          \<lparr>description = ''Penetrating holes noted in soffit, fascia or roof deck'',
            weight = 1 / 5, lt = False\<rparr>])]\<rparr>]\<rparr>,
    \<lparr>category = ''Exterior Walls'', items = [
      \<lparr>name = ''Wall Coverings'', defects = [
        (''moderate'', [
          \<lparr>description = ''>=1 sq ft of siding/stucco/brick is missing (substrate not exposed)'',
            weight = 1 / 5, lt = False\<rparr>,
          \<lparr>description = ''>=10 sq ft of peeling/failing paint on single wall (post-1978 building)'',
            weight = 1 / 5, lt = False\<rparr>,
          \<lparr>description = ''Significant cracking or rot noted in siding material'',
            weight = 1 / 5, lt = False\<rparr>]),
        (''severe'', [
          \<lparr>description = ''Any size hole penetrating to interior space'',
            weight = 11 / 20, lt = False\<rparr>,
          \<lparr>description = ''Wall covering is failing, exposing substrate (e.g., sheathing)'',
            weight = 11 / 20, lt = False\<rparr>,
          \<lparr>description = ''Wall appears to be buckling, bowing, or showing signs of structural failure'',
            weight = 9 / 4, lt = True\<rparr>])]\<rparr>,
      \<lparr>name = ''Address & Signage'', defects = [
        (''moderate'', [
          \<lparr>description = ''Damage causing instability'',
            weight = 1 / 5, lt = False\<rparr>,
          \<lparr>description = ''Address signage near entrance is broken, blocked or illegible'',
            weight = 1 / 5, lt = False\<rparr>,
          \<lparr>description = ''Building ID signs are blocked, broken or illegible'',
            weight = 1 / 5, lt = False\<rparr>]),
        (''severe'', [
          \<lparr>description = ''Address and/or building number are completely missing or illegible from the street, posing a significant safety risk for emergency services.'',
            weight = 11 / 20, lt = False\<rparr>])]\<rparr>,
      \<lparr>name = ''Dryer Vent'', defects = [
        (''low'', [
          \<lparr>description = ''Missing or damaged cover noted'',
            weight = 1 / 10, lt = False\<rparr>]),
        (''severe'', [
          \<lparr>description = ''Vent is blocked/clogged (lint, nest, etc.)'',
            weight = 9 / 4, lt = True\<rparr>])]\<rparr>,
      \<lparr>name = ''Erosion Under Structures'', defects = [
        (''low'', [
          \<lparr>description = ''Erosion causing footer or support exposure or erosion >2 ft away and depth of erosion > than distance to structure'',
            weight = 1 / 10, lt = False\<rparr>])]\<rparr>,
      \<lparr>name = ''Fences | Security'', defects = [
        (''moderate'', [
          \<lparr>description = ''Hole(s) effecting 20% of single section'',
            weight = 1 / 5, lt = False\<rparr>,
          \<lparr>description = ''Gate latch/lock inoperable'',
            weight = 1 / 5, lt = False\<rparr>,
          \<lparr>description = ''Failing post(s) allowing for lean or instability'',
            weight = 1 / 5, lt = False\<rparr>])]\<rparr>,
      \<lparr>name = ''Foundation'', defects = [
        (''moderate'', [
          \<lparr>description = ''Damaged/missing vent'',
            weight = 1 / 5, lt = False\<rparr>,
          \<lparr>description = ''Crack >=1/4" x 12"'',
            weight = 1 / 5, lt = False\<rparr>,
          \<lparr>description = ''Exposed rebar noted'',
            weight = 1 / 5, lt = False\<rparr>,
          \<lparr>description = ''Spalling/flaking noted - 12" x 12" x 3/4" deep'',
            weight = 1 / 5, lt = False\<rparr>,
          \<lparr>description = ''Rot/damage noted to post, girder, etc.'',
            weight = 1 / 5, lt = False\<rparr>]),
        (''severe'', [
          \<lparr>description = ''Possible structural concern noted'',
            weight = 11 / 20, lt = False\<rparr>])]\<rparr>,
      \<lparr>name = ''Retaining Walls'', defects = [
        (''moderate'', [
          \<lparr>description = ''Leaning from fill side or portion collapsed'',
            weight = 1 / 5, lt = False\<rparr>])]\<rparr>,
      \<lparr>name = ''Structural Defects'', defects = [
        (''severe'', [
          \<lparr>description = ''Any structural member appearing in danger of collapse/failure'',
            weight = 9 / 4, lt = True\<rparr>])]\<rparr>]\<rparr>,
    \<lparr>category = ''Utilities'', items = [
      \<lparr>name = ''Leaks and Wastewater'', defects = [
        (''low'', [
          \<lparr>description = ''Leak noted at hose bib, irrigation or fire suppression system'',
            weight = 1 / 10, lt = False\<rparr>]),
        (''moderate'', [
          \<lparr>description = ''Sewer cleanout cover missing or damaged (includes riser)'',
            weight = 1 / 5, lt = False\<rparr>]),
        (''severe'', [
          \<lparr>description = ''Evidence of gas, propane, oil leak'',
            weight = 9 / 4, lt = True\<rparr>,
          \<lparr>description = ''Sewage backed up'',
            weight = 11 / 20, lt = False\<rparr>])]\<rparr>]\<rparr>]\<close>

definition DEFECT_DATA_inside :: "Category list" where
  \<open>DEFECT_DATA_inside = [
    \<lparr>category = ''Restroom | Kitchen | Laundry'', items = [
      \<lparr>name = ''Bath Ventilation'', defects = [
        (''moderate'', [
          \<lparr>description = ''Inop or missing and no window present'',
            weight = 23 / 100, lt = False\<rparr>,
          \<lparr>description = ''Missing or damaged vent cover'',
            weight = 23 / 100, lt = False\<rparr>,
          \<lparr>description = ''Obstruction noted'',
            weight = 23 / 100, lt = False\<rparr>])]\<rparr>,
      \<lparr>name = ''Cabinets'', defects = [
        (''moderate'', [
          \<lparr>description = ''50% of cabinets or components missing/ damaged/inop'',
            weight = 23 / 100, lt = False\<rparr>])]\<rparr>,
      \<lparr>name = ''Countertops'', defects = [
        (''moderate'', [
          \<lparr>description = ''No food prep area'',
            weight = 23 / 100, lt = False\<rparr>,
          \<lparr>description = ''>=10% of top has exposed substrate'',
            weight = 23 / 100, lt = False\<rparr>])]\<rparr>,
      \<lparr>name = ''Grab Bars'', defects = [
        (''moderate'', [
          \<lparr>description = ''Slightly loose'',
            weight = 23 / 100, lt = False\<rparr>])]\<rparr>,
      \<lparr>name = ''Refrigerator'', defects = [
        (''moderate'', [
          \<lparr>description = ''Not cooling adequately'',
            weight = 23 / 100, lt = False\<rparr>,
          \<lparr>description = ''Seal sagging, torn or detached impacting function'',
            weight = 23 / 100, lt = False\<rparr>,
          \<lparr>description = ''Component damaged or missing (handle, drawers, etc.) impacting function'',
            weight = 23 / 100, lt = False\<rparr>])]\<rparr>,
      \<lparr>name = ''Kitchen Ventilation'', defects = [
        (''moderate'', [
          \<lparr>description = ''Filter missing or damaged'',
            weight = 23 / 100, lt = False\<rparr>,
          \<lparr>description = ''Vent is inoperable or part or/fully blocked'',
            weight = 23 / 100, lt = False\<rparr>,
          \<lparr>description = ''Exhaust duct not securely attached or missing'',
            weight = 23 / 100, lt = False\<rparr>])]\<rparr>,
      \<lparr>name = ''Range / Oven'', defects = [
        (''low'', [
          \<lparr>description = ''1 burner or more (or oven) not producing heat'',
            weight = 1 / 10, lt = False\<rparr>]),
        (''moderate'', [
          \<lparr>description = ''Component missing (knob, grate, oven seal, etc.)'',
            weight = 23 / 100, lt = False\<rparr>])]\<rparr>,
      \<lparr>name = ''Shower/Tub & Hardware'', defects = [
        (''low'', [
          \<lparr>description = ''Component (stopper, curtain, etc.) damaged or missing and does NOT impact function'',
            weight = 1 / 10, lt = False\<rparr>,
          \<lparr>description = ''<50% discoloration'',
            weight = 1 / 10, lt = False\<rparr>]),
        (''moderate'', [
          \<lparr>description = ''Component (diverter, head, handle, leak, door, etc.) damaged and impacts function'',
            weight = 23 / 100, lt = False\<rparr>,
          \<lparr>description = ''>=50% discoloration'',
            weight = 23 / 100, lt = False\<rparr>,
          \<lparr>description = ''Shower or tub can't be used in private'',
            weight = 23 / 100, lt = False\<rparr>]),
        (''severe'', [
          \<lparr>description = ''Tub/shower is inoperable'',
            weight = 13 / 20, lt = False\<rparr>,
          \<lparr>description = ''Drain fully clogged'',
            weight = 13 / 20, lt = False\<rparr>])]\<rparr>,
      \<lparr>name = ''Sink'', defects = [
        (''low'', [
          \<lparr>description = ''Missing or inoperable stopper/strainer'',
            weight = 1 / 10, lt = False\<rparr>,
          \<lparr>description = ''Leak outside of basin (around handles, etc.)'',
            weight = 1 / 10, lt = False\<rparr>]),
        (''moderate'', [
          \<lparr>description = ''Missing or inoperable handles'',
            weight = 23 / 100, lt = False\<rparr>,
          \<lparr>description = ''Won't hold water (sink damaged)'',
            weight = 23 / 100, lt = False\<rparr>,
          \<lparr>description = ''Drain clogged'',
            weight = 23 / 100, lt = False\<rparr>,
          \<lparr>description = ''Pulled away from wall'',
            weight = 23 / 100, lt = False\<rparr>])]\<rparr>,
      \<lparr>name = ''Toilet'', defects = [
        (''low'', [
          \<lparr>description = ''Continues to 'run' after flushing - or- tank lid or other component damaged or missing that do not impact function'',
            weight = 1 / 10, lt = False\<rparr>]),
        (''moderate'', [
          \<lparr>description = ''Base is not secure'',
            weight = 23 / 100, lt = False\<rparr>,
          \<lparr>description = ''Seat or flush handle is broken, loose or missing - impacts function'',
            weight = 23 / 100, lt = False\<rparr>,
          \<lparr>description = ''Toilet can't be used in private'',
            weight = 23 / 100, lt = False\<rparr>]),
        (''severe'', [
          \<lparr>description = ''Toilet missing'',
            weight = 5 / 2, lt = True\<rparr>,
          \<lparr>description = ''Doesn't flush or refill correctly'',
            weight = 13 / 20, lt = False\<rparr>])]\<rparr>]\<rparr>,
    \<lparr>category = ''Doors'', items = [
      \<lparr>name = ''Garage Door'', defects = [
        (''moderate'', [
          \<lparr>description = ''Penetrating hole'',
            weight = 23 / 100, lt = False\<rparr>,
          \<lparr>description = ''Door won't open, stay open, close, etc.'',
            weight = 23 / 100, lt = False\<rparr>])]\<rparr>,
      \<lparr>name = ''General Door (Passage)'', defects = [
        (''low'', [
          \<lparr>description = ''Inoperable/missing or damage compromises privacy'',
            weight = 1 / 10, lt = False\<rparr>]),
        (''moderate'', [
          \<lparr>description = ''Passage door won't open'',
            weight = 23 / 100, lt = False\<rparr>])]\<rparr>,
      \<lparr>name = ''Fire Rated Door'', defects = [
        (''severe'', [
          \<lparr>description = ''Hardware inop/missing or door won't latch or open'',
            weight = 13 / 20, lt = False\<rparr>,
          \<lparr>description = ''Self-closure inop'',
            weight = 13 / 20, lt = False\<rparr>,
          \<lparr>description = ''Any size hole noted'',
            weight = 13 / 20, lt = False\<rparr>,
          \<lparr>description = ''Assembly damaged (glass, frame, etc.)'',
            weight = 13 / 20, lt = False\<rparr>,
          \<lparr>description = ''Door propped open'',
            weight = 13 / 20, lt = False\<rparr>,
          \<lparr>description = ''Seal miss/damaged'',
            weight = 13 / 20, lt = False\<rparr>,
          \<lparr>description = ''Missing fire door'',
            weight = 5 / 2, lt = True\<rparr>])]\<rparr>,
      \<lparr>name = ''Entry Door'', defects = [
        (''moderate'', [
          \<lparr>description = ''Seals damaged/missing'',
            weight = 23 / 100, lt = False\<rparr>,
          \<lparr>description = ''Door, frame or threshold damaged/missing'',
            weight = 23 / 100, lt = False\<rparr>]),
        (''severe'', [
          \<lparr>description = ''Light visible >1/8"'',
            weight = 13 / 20, lt = False\<rparr>,
          \<lparr>description = ''Lock inoperable or missing'',
            weight = 13 / 20, lt = False\<rparr>,
          \<lparr>description = ''Door won't open'',
            weight = 13 / 20, lt = False\<rparr>])]\<rparr>]\<rparr>,
    \<lparr>category = ''Electrical'', items = [
      \<lparr>name = ''Enclosures'', defects = [
        (''moderate'', [
          \<lparr>description = ''Blocked/difficult to access'',
            weight = 23 / 100, lt = False\<rparr>]),
        (''severe'', [
          \<lparr>description = ''Water/rust over components'',
            weight = 13 / 20, lt = False\<rparr>,
          \<lparr>description = ''Damaged breaker'',
            weight = 5 / 2, lt = True\<rparr>,
          \<lparr>description = ''Foreign material used for repair'',
            weight = 13 / 20, lt = False\<rparr>])]\<rparr>,
      \<lparr>name = ''Outlets / Switches / GFCI'', defects = [
        (''severe'', [
          \<lparr>description = ''GFCI/AFCI inoperable'',
            weight = 13 / 20, lt = False\<rparr>,
          \<lparr>description = ''GFCI missing where required'',
            weight = 13 / 20, lt = False\<rparr>,
          \<lparr>description = ''Ungrounded/incorrect wiring'',
            weight = 13 / 20, lt = False\<rparr>,
          \<lparr>description = ''Not energized'',
            weight = 13 / 20, lt = False\<rparr>])]\<rparr>,
      \<lparr>name = ''Wires or Conductors'', defects = [
        (''severe'', [
          \<lparr>description = ''Outlet/switch damaged/unsafe'',
            weight = 5 / 2, lt = True\<rparr>,
          \<lparr>description = ''Damaged/missing cover'',
            weight = 5 / 2, lt = False\<rparr>,
          \<lparr>description = ''Missing knockout'',
            weight = 5 / 2, lt = False\<rparr>,
          \<lparr>description = ''Open breaker port'',
            weight = 5 / 2, lt = False\<rparr>,
          \<lparr>description = ''>1/2" gap noted'',
            weight = 5 / 2, lt = False\<rparr>,
          \<lparr>description = ''Exposed wire nuts'',
            weight = 5 / 2, lt = True\<rparr>,
          \<lparr>description = ''Unshielded/damaged wires'',
            weight = 5 / 2, lt = True\<rparr>])]\<rparr>,
      \<lparr>name = ''Lighting'', defects = [
        (''low'', [
          \<lparr>description = ''Inoperable or missing'',
            weight = 1 / 10, lt = False\<rparr>])]\<rparr>]\<rparr>,
    \<lparr>category = ''Fire Safety'', items = [
      \<lparr>name = ''Chimney'', defects = [
        (''severe'', [
          \<lparr>description = ''Chimney/flue/firebox damaged'',
            weight = 5 / 2, lt = True\<rparr>])]\<rparr>,
      \<lparr>name = ''Smoke / CO Detector'', defects = [
        (''severe'', [
          \<lparr>description = ''Missing where required'',
            weight = 5 / 2, lt = True\<rparr>,
          \<lparr>description = ''Inoperable (test failed, etc.)'',
            weight = 5 / 2, lt = True\<rparr>,
          \<lparr>description = ''Improper placement'',
            weight = 5 / 2, lt = True\<rparr>,
          \<lparr>description = ''Expired (if date is visible)'',
            weight = 5 / 2, lt = True\<rparr>])]\<rparr>]\<rparr>,
    \<lparr>category = ''General Health & Safety'', items = [
      \<lparr>name = ''Call-for-Aid'', defects = [
        (''severe'', [
          \<lparr>description = ''Inoperable'',
            weight = 13 / 20, lt = False\<rparr>])]\<rparr>,
      \<lparr>name = ''Elevator'', defects = [
        (''severe'', [
          \<lparr>description = ''Inoperable'',
            weight = 13 / 20, lt = False\<rparr>,
          \<lparr>description = ''Certificate missing or expired'',
            weight = 13 / 20, lt = False\<rparr>])]\<rparr>,
      \<lparr>name = ''Guardrails'', defects = [
        (''severe'', [
          \<lparr>description = ''Missing where required'',
            weight = 5 / 2, lt = True\<rparr>,
          \<lparr>description = ''Incorrect height'',
            weight = 5 / 2, lt = False\<rparr>,
          \<lparr>description = ''Component damaged/missing'',
            weight = 5 / 2, lt = False\<rparr>])]\<rparr>,
      \<lparr>name = ''Handrails'', defects = [
        (''moderate'', [
          \<lparr>description = ''Loose'',
            weight = 23 / 100, lt = False\<rparr>])]\<rparr>,
      \<lparr>name = ''Hot Water Heater'', defects = [
        (''severe'', [
          \<lparr>description = ''T&P valve missing'',
            weight = 5 / 2, lt = True\<rparr>,
          \<lparr>description = ''T&P discharge line missing or improper'',
            weight = 5 / 2, lt = True\<rparr>])]\<rparr>,
      \<lparr>name = ''HVAC'', defects = [
        (''low'', [
          \<lparr>description = ''Filter missing or damaged'',
            weight = 1 / 10, lt = False\<rparr>]),
        (''moderate'', [
          \<lparr>description = ''No A/C and temp >85F'',
            weight = 23 / 100, lt = False\<rparr>]),
        (''severe'', [
          \<lparr>description = ''Inoperable or no heat source'',
            weight = 5 / 2, lt = True\<rparr>,
          \<lparr>description = ''Unvented fuel-burning heater'',
            weight = 5 / 2, lt = True\<rparr>])]\<rparr>,
      \<lparr>name = ''Infestation'', defects = [
        (''moderate'', [
          \<lparr>description = ''Evidence of roaches, mice, etc.'',
            weight = 23 / 100, lt = False\<rparr>])]\<rparr>,
      \<lparr>name = ''Lead-based Paint'', defects = [
        (''moderate'', [
          \<lparr>description = ''<2 sf of deterioration'',
            weight = 23 / 100, lt = False\<rparr>]),
        (''severe'', [
          \<lparr>description = ''>=2 sf of deterioration'',
            weight = 5 / 2, lt = True\<rparr>])]\<rparr>,
      \<lparr>name = ''Mold & Mildew'', defects = [
        (''moderate'', [
          \<lparr>description = ''>1 sf of mold-like-substance'',
            weight = 23 / 100, lt = False\<rparr>])]\<rparr>,
      \<lparr>name = ''Sharp Edges'', defects = [
        (''severe'', [
          \<lparr>description = ''Sharp edge likely to cause serious injury'',
            weight = 13 / 20, lt = False\<rparr>])]\<rparr>,
      \<lparr>name = ''Stairs and Steps'', defects = [
        (''moderate'', [
          \<lparr>description = ''Missing/loose/unlevel tread'',
            weight = 23 / 100, lt = False\<rparr>,
          \<lparr>description = ''Nosing damage'',
            weight = 23 / 100, lt = False\<rparr>,
          \<lparr>description = ''Stringer damaged'',
            weight = 23 / 100, lt = False\<rparr>])]\<rparr>,
      \<lparr>name = ''Trip Hazard'', defects = [
        (''moderate'', [
          \<lparr>description = ([CHR 0xBE] @ '' inch vertical deviation''),
            weight = 23 / 100, lt = False\<rparr>])]\<rparr>,
      \<lparr>name = ''Water Supply'', defects = [
        (''severe'', [
          \<lparr>description = ''No hot or cold water in unit'',
            weight = 5 / 2, lt = True\<rparr>])]\<rparr>]\<rparr>,
    \<lparr>category = ''Structure & Materials'', items = [
      \<lparr>name = ''Ceiling'', defects = [
        (''moderate'', [
          \<lparr>description = ''Hole >1 sf'',
            weight = 23 / 100, lt = False\<rparr>]),
        (''severe'', [
          \<lparr>description = ''Buckling/sagging/failing'',
            weight = 13 / 20, lt = False\<rparr>])]\<rparr>,
      \<lparr>name = ''Floor'', defects = [
        (''moderate'', [
          \<lparr>description = ''Hole'',
            weight = 23 / 100, lt = False\<rparr>]),
        (''severe'', [
          \<lparr>description = ''Spongy/soft/failing'',
            weight = 13 / 20, lt = False\<rparr>])]\<rparr>,
      \<lparr>name = ''Leaks'', defects = [
        (''moderate'', [
          \<lparr>description = ''Stain, but not actively leaking'',
            weight = 23 / 100, lt = False\<rparr>]),
        (''severe'', [
          \<lparr>description = ''Active, running water leak'',
            weight = 13 / 20, lt = False\<rparr>])]\<rparr>,
      \<lparr>name = ''Walls'', defects = [
        (''moderate'', [
          \<lparr>description = ''Hole >1 sf'',
            weight = 23 / 100, lt = False\<rparr>]),
        (''severe'', [
          \<lparr>description = ''Buckling/bowing/failing'',
            weight = 13 / 20, lt = False\<rparr>])]\<rparr>,
      \<lparr>name = ''Window'', defects = [
        (''low'', [
          \<lparr>description = ''Screen damaged/missing'',
            weight = 1 / 10, lt = False\<rparr>]),
        (''moderate'', [
          \<lparr>description = ''Hardware damaged/missing'',
            weight = 23 / 100, lt = False\<rparr>,
          \<lparr>description = ''Thermal seal broken'',
            weight = 23 / 100, lt = False\<rparr>,
          \<lparr>description = ''Missing or won't stay open'',
            weight = 23 / 100, lt = False\<rparr>]),
        (''severe'', [
          \<lparr>description = ''Won't close/lock'',
            weight = 13 / 20, lt = False\<rparr>,
          \<lparr>description = ''Glass broken/missing'',
            weight = 13 / 20, lt = False\<rparr>,
          \<lparr>description = ''Fire escape window inoperable'',
            weight = 13 / 20, lt = False\<rparr>])]\<rparr>]\<rparr>]\<close>

definition DEFECT_DATA :: Defect_Data where
  "DEFECT_DATA = \<lparr>outside = DEFECT_DATA_outside, inside = DEFECT_DATA_inside\<rparr>"


section \<open>The state of the application\<close>

text \<open>
  The React state of \<open>App\<close> that the ledger and the score read and write: the text of
  the total-units input, the sample size, the counts per defect key and the notes per
  defect key. A key is \<open>location-category-item-severity-defect\<close>, followed by
  \<open>-unit\<close> for an inside defect. The field \<open>text\<close> of a note is \<open>note_text\<close> and
  the state \<open>notes\<close> is \<open>notesMap\<close>, the source's names being reserved words here.
\<close>

type_synonym blob = string

record Note =
  note_text :: string
  audio :: "blob option"
  audioURL :: "string option"
  photo :: "blob option"
  photoURL :: "string option"

record App_State =
  totalUnits :: string
  sampleSize :: int
  defectCounts :: "(string \<times> int) list"
  notesMap :: "(string \<times> Note) list"

text \<open>\<open>prev[key] || 0\<close>: a missing count and a zero count both give 0.\<close>

definition count_or_zero :: "(string \<times> int) list \<Rightarrow> string \<Rightarrow> int" where
  "count_or_zero prev key =
     (case map_of prev key of None \<Rightarrow> 0 | Some c \<Rightarrow> if c = 0 then 0 else c)"

definition updateDefectCount :: "string \<Rightarrow> int \<Rightarrow> App_State \<Rightarrow> App_State" where
  "updateDefectCount key change s =
     (let prev = defectCounts s;
          newCount = count_or_zero prev key + change
      in s\<lparr>defectCounts := obj_set prev key (max 0 newCount)\<rparr>)"

text \<open>\<open>{ ...prev[key], text: text }\<close>: the other fields of an existing note are kept.\<close>

definition updateNoteText :: "string \<Rightarrow> string \<Rightarrow> App_State \<Rightarrow> App_State" where
  "updateNoteText key txt s =
     (let prev = notesMap s;
          note = (case map_of prev key of
                    None \<Rightarrow> \<lparr>note_text = txt, audio = None, audioURL = None,
                             photo = None, photoURL = None\<rparr>
                  | Some n \<Rightarrow> n\<lparr>note_text := txt\<rparr>)
      in s\<lparr>notesMap := obj_set prev key note\<rparr>)"

section \<open>The score\<close>

text \<open>
  The five pieces of a key are looked up in the catalogue with optional chaining: a
  category, item, severity or defect that does not exist gives \<open>undefined\<close>. A
  severity that names an inherited property of the \<open>defects\<close> object (\<open>constructor\<close>,
  say) gives a value without numbered entries, so the defect is \<open>undefined\<close> there
  too, as for a severity the item does not have.
\<close>

definition key_location :: "string \<Rightarrow> string" where
  "key_location key = to_string (nth_opt (split_on CHR ''-'' key) 0)"

definition lookupDefect :: "Defect_Data \<Rightarrow> string \<Rightarrow> (Item \<times> Defect) option" where
  "lookupDefect D key =
     (let parts = split_on CHR ''-'' key;
          location = to_string (nth_opt parts 0);
          catIndex = to_string (nth_opt parts 1);
          itemIndex = to_string (nth_opt parts 2);
          severity = to_string (nth_opt parts 3);
          defectIndex = to_string (nth_opt parts 4);
          defectList = (if location = ''outside'' then outside D else inside D)
      in case array_get defectList (parseInt catIndex) of
           None \<Rightarrow> None
         | Some cat \<Rightarrow>
             (case array_get (items cat) (parseInt itemIndex) of
                None \<Rightarrow> None
              | Some item \<Rightarrow>
                  (case map_of (defects item) severity of
                     None \<Rightarrow> None
                   | Some ds \<Rightarrow>
                       (case array_get ds (parseInt defectIndex) of
                          None \<Rightarrow> None
                        | Some defect \<Rightarrow> Some (item, defect)))))"

text \<open>
  One round of the loop over \<open>Object.entries(defectCounts)\<close>, on the three variables
  \<open>outsideWeight\<close>, \<open>insideWeight\<close> and \<open>lifeThreateningDefects\<close>.
\<close>

definition score_step ::
  "Defect_Data \<Rightarrow> rat \<times> rat \<times> string list \<Rightarrow> string \<times> int \<Rightarrow> rat \<times> rat \<times> string list" where
  "score_step D acc entry =
     (case acc of (outsideWeight, insideWeight, lts) \<Rightarrow>
      case entry of (key, count) \<Rightarrow>
        if count > 0 then
          (case lookupDefect D key of
             None \<Rightarrow> acc
           | Some (item, defect) \<Rightarrow>
               (let totalWeight = weight defect * of_int count
                in (if key_location key = ''outside'' then outsideWeight + totalWeight
                    else outsideWeight,
                    if key_location key = ''outside'' then insideWeight
                    else insideWeight + totalWeight,
                    if lt defect
                    then lts @ [name item @ '': '' @ description defect @
                                '' (x'' @ show_int count @ '')'']
                    else lts)))
        else acc)"

record Score =
  outsideScore :: string
  insideScore :: string
  finalScore :: string
  failing :: bool
  lifeThreateningDefects :: "string list"

definition score :: "Defect_Data \<Rightarrow> App_State \<Rightarrow> Score" where
  "score D s =
     (case foldl (score_step D) (0, 0, []) (defectCounts s) of
        (outsideWeight, insideWeight, lts) \<Rightarrow>
          (let numUnits = parseInt (totalUnits s);
               unitWeight =
                 insideWeight / of_int (if sampleSize s > 0 then sampleSize s else 1) *
                 of_int (case numUnits of None \<Rightarrow> 1 | Some n \<Rightarrow> if n > 0 then n else 1);
               totalDeductions = outsideWeight + unitWeight;
               finalScoreVal = max 0 (100 - totalDeductions);
               insideScoreVal = max 0 (100 - unitWeight)
           in \<lparr>outsideScore = toFixed 2 (max 0 (100 - outsideWeight)),
               insideScore = toFixed 2 insideScoreVal,
               finalScore = toFixed 2 finalScoreVal,
               failing = (finalScoreVal < 60 \<or> unitWeight \<ge> 30 \<or> outsideWeight \<ge> 40 \<or>
                          length lts > 0),
               lifeThreateningDefects = lts\<rparr>))"


subsection \<open>The quantities of the scoring algorithm, as the specification names them\<close>

text \<open>
  The deduction of one ledger entry is its count times the weight of the defect its key
  names. An entry whose key names no defect of the catalogue has no weight and adds
  nothing.
\<close>

definition entry_points :: "Defect_Data \<Rightarrow> string \<times> int \<Rightarrow> rat" where
  "entry_points D entry =
     (case entry of (key, count) \<Rightarrow>
        (case lookupDefect D key of
           None \<Rightarrow> 0
         | Some (item, defect) \<Rightarrow> of_int count * weight defect))"

definition is_common :: "string \<times> int \<Rightarrow> bool" where
  "is_common entry = (key_location (fst entry) = ''outside'')"

definition spec_commonDeductionPoints :: "Defect_Data \<Rightarrow> (string \<times> int) list \<Rightarrow> rat" where
  "spec_commonDeductionPoints D ledger =
     sum_list (map (entry_points D) (filter is_common ledger))"

definition spec_totalUnitDeductionPoints :: "Defect_Data \<Rightarrow> (string \<times> int) list \<Rightarrow> rat" where
  "spec_totalUnitDeductionPoints D ledger =
     sum_list (map (entry_points D) (filter (\<lambda>e. \<not> is_common e) ledger))"

definition spec_extrapolatedInteriorDeduction ::
  "Defect_Data \<Rightarrow> (string \<times> int) list \<Rightarrow> int \<Rightarrow> int \<Rightarrow> rat" where
  "spec_extrapolatedInteriorDeduction D ledger sample_size total_units =
     spec_totalUnitDeductionPoints D ledger / of_int sample_size * of_int total_units"

definition spec_finalScore ::
  "Defect_Data \<Rightarrow> (string \<times> int) list \<Rightarrow> int \<Rightarrow> int \<Rightarrow> rat" where
  "spec_finalScore D ledger sample_size total_units =
     max 0 (100 - spec_commonDeductionPoints D ledger
                - spec_extrapolatedInteriorDeduction D ledger sample_size total_units)"

text \<open>
  The critical findings: the entries with a positive count whose defect is flagged
  life-threatening, in the order of the ledger.
\<close>

definition is_critical :: "Defect_Data \<Rightarrow> string \<times> int \<Rightarrow> bool" where
  "is_critical D entry =
     (case entry of (key, count) \<Rightarrow>
        count > 0 \<and>
        (case lookupDefect D key of None \<Rightarrow> False | Some (item, defect) \<Rightarrow> lt defect))"

definition spec_criticalFindings ::
  "Defect_Data \<Rightarrow> (string \<times> int) list \<Rightarrow> (string \<times> int) list" where
  "spec_criticalFindings D ledger = filter (is_critical D) ledger"

text \<open>The line the score prints for a critical finding.\<close>

definition finding_text :: "Defect_Data \<Rightarrow> string \<times> int \<Rightarrow> string" where
  "finding_text D entry =
     (case entry of (key, count) \<Rightarrow>
        (case lookupDefect D key of
           None \<Rightarrow> []
         | Some (item, defect) \<Rightarrow>
             name item @ '': '' @ description defect @ '' (x'' @ show_int count @ '')''))"

section \<open>The sample size\<close>

text \<open>\<open>calculateSampleSize\<close> of the component with the ledger above.\<close>

definition calculateSampleSize :: "int \<Rightarrow> int" where
  "calculateSampleSize numUnits =
     (if numUnits \<le> 0 then 0
      else if numUnits = 1 then 1
      else if numUnits \<le> 10 then min numUnits 4
      else if numUnits \<le> 20 then 6
      else if numUnits \<le> 30 then 7
      else if numUnits \<le> 40 then 8
      else if numUnits \<le> 50 then 9
      else if numUnits \<le> 60 then 10
      else if numUnits \<le> 70 then 11
      else if numUnits \<le> 80 then 12
      else if numUnits \<le> 90 then 13
      else if numUnits \<le> 100 then 14
      else if numUnits \<le> 200 then 17
      else if numUnits \<le> 300 then 19
      else if numUnits \<le> 400 then 20
      else if numUnits \<le> 500 then 21
      else 23)"

text \<open>
  \<open>handleTotalUnitsChange\<close>: the sample size is resolved from the text of the input when
  it parses to a positive number, and is 0 otherwise.
\<close>

definition handleTotalUnitsChange :: "string \<Rightarrow> App_State \<Rightarrow> App_State" where
  "handleTotalUnitsChange v s =
     (let numUnits = parseInt v
      in (case numUnits of
            None \<Rightarrow> s\<lparr>totalUnits := v, sampleSize := 0\<rparr>
          | Some n \<Rightarrow>
              if n > 0 then s\<lparr>totalUnits := v, sampleSize := calculateSampleSize n\<rparr>
              else s\<lparr>totalUnits := v, sampleSize := 0\<rparr>))"

text \<open>\<open>calculateSampleSize\<close> of \<open>index.tsx\<close>, which has its own table.\<close>

definition calculateSampleSize_index :: "int \<Rightarrow> int" where
  "calculateSampleSize_index numUnits =
     (if numUnits \<le> 0 then 0
      else if numUnits = 1 then 1
      else if numUnits \<ge> 2 \<and> numUnits \<le> 8 then 2
      else if numUnits \<ge> 9 \<and> numUnits \<le> 15 then 3
      else if numUnits \<ge> 16 \<and> numUnits \<le> 25 then 4
      else if numUnits \<ge> 26 \<and> numUnits \<le> 40 then 5
      else if numUnits \<ge> 41 \<and> numUnits \<le> 65 then 6
      else if numUnits \<ge> 66 \<and> numUnits \<le> 90 then 7
      else if numUnits \<ge> 91 \<and> numUnits \<le> 150 then 8
      else if numUnits \<ge> 151 \<and> numUnits \<le> 280 then 10
      else if numUnits \<ge> 281 \<and> numUnits \<le> 500 then 11
      else if numUnits \<ge> 501 \<and> numUnits \<le> 1200 then 15
      else 19)"

text \<open>\<open>getSampleSize\<close> of the third component in \<open>index.tsx\<close>.\<close>

definition getSampleSize :: "int \<Rightarrow> int" where
  "getSampleSize units =
     (if units = 1 then 1 else if units \<le> 2 then 2 else if units \<le> 3 then 3
      else if units \<le> 4 then 4 else if units \<le> 5 then 5 else if units \<le> 7 then 6
      else if units \<le> 8 then 7 else if units \<le> 10 then 8 else if units \<le> 12 then 9
      else if units \<le> 14 then 10 else if units \<le> 16 then 11 else if units \<le> 18 then 12
      else if units \<le> 21 then 13 else if units \<le> 24 then 14 else if units \<le> 27 then 15
      else if units \<le> 30 then 16 else if units \<le> 35 then 17 else if units \<le> 39 then 18
      else if units \<le> 45 then 19 else if units \<le> 51 then 20 else if units \<le> 59 then 21
      else if units \<le> 67 then 22 else if units \<le> 78 then 23 else if units \<le> 92 then 24
      else if units \<le> 110 then 25 else if units \<le> 120 then 26 else if units \<le> 166 then 27
      else if units \<le> 214 then 28 else if units \<le> 295 then 29 else if units \<le> 455 then 30
      else if units \<le> 920 then 31 else 32)"

text \<open>
  The sample size the setup screen of that component computes from the text of its
  input: the table is read only for a positive number.
\<close>

definition SetupScreen_sampleSize :: "string \<Rightarrow> int" where
  "SetupScreen_sampleSize v =
     (case parseInt v of
        None \<Rightarrow> 0
      | Some num \<Rightarrow> if num > 0 then getSampleSize num else 0)"

section \<open>The other scores of \<open>index.tsx\<close>\<close>

text \<open>
  The score of the first component of \<open>index.tsx\<close>: every recorded defect carries its
  own count, weight and flag, and the deductions are one sum.
\<close>

record Recorded_Defect =
  rd_count :: int
  rd_weight :: rat
  rd_lt :: bool
  rd_description :: string
  rd_name :: string
  rd_category :: string
  rd_severity :: string

text \<open>The field \<open>lt\<close> of the result, a number, is \<open>lt_count\<close> here.\<close>

record Score_Index =
  numeric :: string
  grade :: string
  lt_count :: nat
  pass :: bool

definition score_index :: "(string \<times> Recorded_Defect) list \<Rightarrow> Score_Index" where
  "score_index defs =
     (let totalDeductions =
            foldl (\<lambda>acc defect. acc + of_int (rd_count defect) * rd_weight defect) 0
              (map snd defs);
          lifeThreatening =
            length (filter (\<lambda>d. rd_lt d \<and> rd_count d > 0) (map snd defs));
          finalScoreVal = max 0 (100 - totalDeductions);
          letterGrade =
            (if finalScoreVal \<ge> 90 then ''A'' else if finalScoreVal \<ge> 80 then ''B''
             else if finalScoreVal \<ge> 70 then ''C'' else if finalScoreVal \<ge> 60 then ''D''
             else ''F'')
      in \<lparr>numeric = toFixed 1 finalScoreVal, grade = letterGrade,
          lt_count = lifeThreatening,
          pass = (finalScoreVal \<ge> 60 \<and> lifeThreatening = 0)\<rparr>)"

text \<open>
  \<open>reacScore\<close> of the inspection screen of the third component: the logged defects are
  a list, one element per sighting.
\<close>

record Logged_Defect =
  ld_id :: rat
  ld_area :: string
  ld_unitIndex :: "int option"
  ld_category :: string
  ld_item :: string
  ld_severity :: string
  ld_description :: string
  ld_weight :: rat
  ld_lt :: bool
  ld_key :: string



section \<open>The scores in double arithmetic\<close>

text \<open>
  The score of the ledger as the source computes it: the same loop and the same
  expressions as \<open>score\<close>, every number a double. A weight is the double its decimal
  literal denotes in the catalogue, a count is multiplied as \<open>defect.weight * count\<close>,
  and the two sums start at 0 and grow in the enumeration order of the ledger. The number
  of units is \<open>parseInt(totalUnits, 10)\<close>, which may be \<open>NaN\<close> or, for a text of more
  than 308 digits, infinite. The message of a life-threatening defect prints the count as
  an integer, which is what \<open>String\<close> does for the counts below \<open>2^53\<close> that the
  steppers of the ledger produce.
\<close>

definition score_step_double ::
  "Defect_Data \<Rightarrow> js_number \<times> js_number \<times> string list \<Rightarrow> string \<times> int
     \<Rightarrow> js_number \<times> js_number \<times> string list" where
  "score_step_double D acc entry =
     (case acc of (outsideWeight, insideWeight, lts) \<Rightarrow>
      case entry of (key, count) \<Rightarrow>
        if count > 0 then
          (case lookupDefect D key of
             None \<Rightarrow> acc
           | Some (item, defect) \<Rightarrow>
               (let totalWeight = js_mul (round_double (weight defect)) (js_of_int count)
                in (if key_location key = ''outside'' then js_add outsideWeight totalWeight
                    else outsideWeight,
                    if key_location key = ''outside'' then insideWeight
                    else js_add insideWeight totalWeight,
                    if lt defect
                    then lts @ [name item @ '': '' @ description defect @
                                '' (x'' @ show_int count @ '')'']
                    else lts)))
        else acc)"

definition score_double :: "Defect_Data \<Rightarrow> App_State \<Rightarrow> Score" where
  "score_double D s =
     (case foldl (score_step_double D) (Fin 0, Fin 0, []) (defectCounts s) of
        (outsideWeight, insideWeight, lts) \<Rightarrow>
          (let numUnits = js_parseInt (totalUnits s);
               unitWeight =
                 js_mul
                   (js_div insideWeight
                      (if sampleSize s > 0 then js_of_int (sampleSize s) else Fin 1))
                   (if js_gt numUnits (Fin 0) then numUnits else Fin 1);
               totalDeductions = js_add outsideWeight unitWeight;
               finalScoreVal = js_max (Fin 0) (js_sub (Fin 100) totalDeductions);
               insideScoreVal = js_max (Fin 0) (js_sub (Fin 100) unitWeight)
           in \<lparr>outsideScore = js_toFixed 2 (js_max (Fin 0) (js_sub (Fin 100) outsideWeight)),
               insideScore = js_toFixed 2 insideScoreVal,
               finalScore = js_toFixed 2 finalScoreVal,
               failing = (js_lt finalScoreVal (Fin 60) \<or> js_ge unitWeight (Fin 30) \<or>
                          js_ge outsideWeight (Fin 40) \<or> length lts > 0),
               lifeThreateningDefects = lts\<rparr>))"


section \<open>Auxiliary definitions\<close>

text \<open>What one round of the loop adds for an entry: nothing unless the count is positive.\<close>

definition counted_points :: "Defect_Data \<Rightarrow> string \<times> int \<Rightarrow> rat" where
  "counted_points D entry = (if snd entry > 0 then entry_points D entry else 0)"

text \<open>The two guarded operands of the extrapolation in \<open>score\<close>.\<close>

definition sample_divisor :: "App_State \<Rightarrow> int" where
  "sample_divisor s = (if sampleSize s > 0 then sampleSize s else 1)"

definition unit_factor :: "App_State \<Rightarrow> int" where
  "unit_factor s =
     (case parseInt (totalUnits s) of None \<Rightarrow> 1 | Some n \<Rightarrow> if n > 0 then n else 1)"

text \<open>
  The quantities of the score in double arithmetic. An occurrence is an entry the loop
  counts: a positive count under a key that names a defect. Its points are the rounded
  product of the weight and the count, and a sum of points is the sum the loop builds,
  from 0 and from left to right, rounded after every addition.
\<close>

definition occurrence :: "Defect_Data \<Rightarrow> string \<times> int \<Rightarrow> bool" where
  "occurrence D entry =
     (case entry of (key, count) \<Rightarrow> count > 0 \<and> lookupDefect D key \<noteq> None)"

definition occurrence_points :: "Defect_Data \<Rightarrow> string \<times> int \<Rightarrow> js_number" where
  "occurrence_points D entry =
     (case entry of (key, count) \<Rightarrow>
        (case lookupDefect D key of
           None \<Rightarrow> Fin 0
         | Some (item, defect) \<Rightarrow> js_mul (round_double (weight defect)) (js_of_int count)))"

definition double_sum :: "js_number list \<Rightarrow> js_number" where
  "double_sum xs = foldl js_add (Fin 0) xs"

definition double_commonDeductionPoints :: "Defect_Data \<Rightarrow> (string \<times> int) list \<Rightarrow> js_number" where
  "double_commonDeductionPoints D ledger =
     double_sum (map (occurrence_points D)
                   (filter (\<lambda>e. occurrence D e \<and> is_common e) ledger))"

definition double_totalUnitDeductionPoints ::
  "Defect_Data \<Rightarrow> (string \<times> int) list \<Rightarrow> js_number" where
  "double_totalUnitDeductionPoints D ledger =
     double_sum (map (occurrence_points D)
                   (filter (\<lambda>e. occurrence D e \<and> \<not> is_common e) ledger))"

definition double_extrapolatedInteriorDeduction ::
  "Defect_Data \<Rightarrow> (string \<times> int) list \<Rightarrow> js_number \<Rightarrow> js_number \<Rightarrow> js_number" where
  "double_extrapolatedInteriorDeduction D ledger sample_size total_units =
     js_mul (js_div (double_totalUnitDeductionPoints D ledger) sample_size) total_units"

definition double_finalScore ::
  "Defect_Data \<Rightarrow> (string \<times> int) list \<Rightarrow> js_number \<Rightarrow> js_number \<Rightarrow> js_number" where
  "double_finalScore D ledger sample_size total_units =
     js_max (Fin 0)
       (js_sub (Fin 100)
          (js_add (double_commonDeductionPoints D ledger)
             (double_extrapolatedInteriorDeduction D ledger sample_size total_units)))"



text \<open>The two guarded operands of the extrapolation in \<open>score_double\<close>.\<close>

definition sample_divisor_double :: "App_State \<Rightarrow> js_number" where
  "sample_divisor_double s = (if sampleSize s > 0 then js_of_int (sampleSize s) else Fin 1)"

definition unit_factor_double :: "App_State \<Rightarrow> js_number" where
  "unit_factor_double s =
     (if js_gt (js_parseInt (totalUnits s)) (Fin 0) then js_parseInt (totalUnits s) else Fin 1)"

subsection \<open>Inputs used for evaluation\<close>

text \<open>
  A ledger with two common-area counts and one note, for a property of 100 units and
  the sample size the table gives for it, and the same property before any count.
\<close>

definition ledger_example :: App_State where
  "ledger_example =
     \<lparr>totalUnits = ''100'', sampleSize = 14,
      defectCounts = [(''outside-0-0-low-0'', 2), (''outside-0-0-low-1'', 3)],
      notesMap = [(''outside-0-0-low-1'',
        \<lparr>note_text = ''sofa'', audio = None, audioURL = None,
         photo = None, photoURL = None\<rparr>)]\<rparr>"

definition empty_ledger :: App_State where
  "empty_ledger = \<lparr>totalUnits = ''100'', sampleSize = 14, defectCounts = [], notesMap = []\<rparr>"


definition scenario_C :: App_State where
  "scenario_C = \<lparr>totalUnits = ''100'', sampleSize = 10,
     defectCounts = [(''inside-2-2-severe-0-1'', 1)], notesMap = []\<rparr>"


text \<open>
  A count under a key whose defect index 9 is beyond the seven severe defects of the
  item, and a ledger that reaches the score with the sample size 0.
\<close>

definition dangling_ledger :: App_State where
  "dangling_ledger = \<lparr>totalUnits = ''100'', sampleSize = 14,
     defectCounts = [(''inside-2-2-severe-9-1'', 5)], notesMap = []\<rparr>"


definition recorded_example :: "(string \<times> Recorded_Defect) list" where
  "recorded_example =
     [(''Toilet-severe-0'',
       \<lparr>rd_count = 1, rd_weight = 5 / 2, rd_lt = True, rd_description = ''Toilet missing'',
        rd_name = ''Toilet'', rd_category = ''Restroom | Kitchen | Laundry'',
        rd_severity = ''severe''\<rparr>)]"





section \<open>Properties of the ledger\<close>

lemma map_of_obj_set_same: "map_of (obj_set es k v) k = Some v"
  by (induction es) auto

lemma map_of_obj_set_other: "k' \<noteq> k \<Longrightarrow> map_of (obj_set es k v) k' = map_of es k'"
  by (induction es) auto

text \<open>
  Claim C8. For every key \<open>k\<close>, every starting count \<open>c\<close> and every integer \<open>delta\<close>,
  \<open>updateDefectCount k delta\<close> leaves the count of \<open>k\<close> at \<open>max 0 (c + delta)\<close>. The
  starting count is what the ledger reads for \<open>k\<close>: the stored count, or 0 when \<open>k\<close> has
  no entry. The function has no failing branch; taking one from a count of 0 stores 0.
\<close>

theorem updateDefectCount_clamps:
  "map_of (defectCounts (updateDefectCount k delta s)) k
     = Some (max 0 (count_or_zero (defectCounts s) k + delta))
   \<and> count_or_zero (defectCounts (updateDefectCount k delta s)) k
     = max 0 (count_or_zero (defectCounts s) k + delta)"
  by (simp add: updateDefectCount_def Let_def map_of_obj_set_same count_or_zero_def)

theorem updateDefectCount_clamps_witness:
  "count_or_zero (defectCounts empty_ledger) ''outside-0-0-low-0'' = 0
   \<and> map_of (defectCounts (updateDefectCount ''outside-0-0-low-0'' (- 1) empty_ledger))
         ''outside-0-0-low-0'' = Some 0
   \<and> map_of (defectCounts (updateDefectCount ''outside-0-0-low-0'' (- 5) ledger_example))
         ''outside-0-0-low-0'' = Some 0
   \<and> map_of (defectCounts (updateDefectCount ''outside-0-0-low-0'' 1 ledger_example))
         ''outside-0-0-low-0'' = Some 3"
  using updateDefectCount_clamps [of "''outside-0-0-low-0''" "- 1" empty_ledger]
    updateDefectCount_clamps [of "''outside-0-0-low-0''" "- 5" ledger_example]
    updateDefectCount_clamps [of "''outside-0-0-low-0''" 1 ledger_example]
  by (simp add: count_or_zero_def empty_ledger_def ledger_example_def)

text \<open>
  Claim C10. \<open>updateDefectCount k delta\<close> changes at most the count stored at \<open>k\<close>:
  the count of every other key, the notes, the total units and the sample size stay as
  they were. \<open>updateNoteText k txt\<close> changes only the note of \<open>k\<close>: the note of every
  other key and all the counts stay as they were.
\<close>

theorem update_frame:
  "notesMap (updateDefectCount k delta s) = notesMap s
   \<and> totalUnits (updateDefectCount k delta s) = totalUnits s
   \<and> sampleSize (updateDefectCount k delta s) = sampleSize s
   \<and> (\<forall>k'. k' \<noteq> k \<longrightarrow>
         map_of (defectCounts (updateDefectCount k delta s)) k' = map_of (defectCounts s) k')
   \<and> defectCounts (updateNoteText k txt s) = defectCounts s
   \<and> totalUnits (updateNoteText k txt s) = totalUnits s
   \<and> sampleSize (updateNoteText k txt s) = sampleSize s
   \<and> (\<forall>k'. k' \<noteq> k \<longrightarrow>
         map_of (notesMap (updateNoteText k txt s)) k' = map_of (notesMap s) k')"
  by (simp add: updateDefectCount_def updateNoteText_def Let_def map_of_obj_set_other)

theorem update_frame_witness:
  "''outside-0-0-low-1'' \<noteq> ''outside-0-0-low-0''
   \<and> map_of (defectCounts (updateDefectCount ''outside-0-0-low-0'' 1 ledger_example))
         ''outside-0-0-low-1'' = Some 3
   \<and> notesMap (updateDefectCount ''outside-0-0-low-0'' 1 ledger_example)
         = notesMap ledger_example
   \<and> map_of (notesMap (updateNoteText ''outside-0-0-low-0'' ''wrappers'' ledger_example))
         ''outside-0-0-low-1''
         = Some \<lparr>note_text = ''sofa'', audio = None, audioURL = None,
                  photo = None, photoURL = None\<rparr>
   \<and> defectCounts (updateNoteText ''outside-0-0-low-0'' ''wrappers'' ledger_example)
         = [(''outside-0-0-low-0'', 2), (''outside-0-0-low-1'', 3)]"
proof -
  have ne: "''outside-0-0-low-1'' \<noteq> ''outside-0-0-low-0''"
    by simp
  have before:
    "map_of (defectCounts ledger_example) ''outside-0-0-low-1'' = Some 3"
    "map_of (notesMap ledger_example) ''outside-0-0-low-1''
       = Some \<lparr>note_text = ''sofa'', audio = None, audioURL = None,
                photo = None, photoURL = None\<rparr>"
    "defectCounts ledger_example = [(''outside-0-0-low-0'', 2), (''outside-0-0-low-1'', 3)]"
    by (simp_all add: ledger_example_def)
  from update_frame [of "''outside-0-0-low-0''" 1 ledger_example "''wrappers''"] ne before
  show ?thesis
    by simp
qed

section \<open>Properties of the sample size\<close>

lemma calculateSampleSize_mono:
  "a \<le> b \<Longrightarrow> calculateSampleSize a \<le> calculateSampleSize b"
  unfolding calculateSampleSize_def by (simp add: min_def split: if_splits)

lemma calculateSampleSize_bounds:
  "1 \<le> n \<Longrightarrow> 1 \<le> calculateSampleSize n \<and> calculateSampleSize n \<le> n"
  unfolding calculateSampleSize_def by (simp split: if_splits)

lemma calculateSampleSize_index_mono:
  "a \<le> b \<Longrightarrow> calculateSampleSize_index a \<le> calculateSampleSize_index b"
  unfolding calculateSampleSize_index_def by (simp split: if_splits)

lemma calculateSampleSize_index_bounds:
  "1 \<le> n \<Longrightarrow> 1 \<le> calculateSampleSize_index n \<and> calculateSampleSize_index n \<le> n"
  unfolding calculateSampleSize_index_def by (simp split: if_splits)

lemma getSampleSize_mono:
  "1 \<le> a \<Longrightarrow> a \<le> b \<Longrightarrow> getSampleSize a \<le> getSampleSize b"
  unfolding getSampleSize_def by (simp split: if_splits)

lemma getSampleSize_bounds:
  "1 \<le> n \<Longrightarrow> 1 \<le> getSampleSize n \<and> getSampleSize n \<le> n"
  unfolding getSampleSize_def by (simp split: if_splits)

text \<open>
  Claim C7. For all populations \<open>a\<close> and \<open>b\<close> of at least one unit with \<open>a \<le> b\<close>
  the sample size of \<open>a\<close> is at most the sample size of \<open>b\<close>, and for every population
  \<open>n\<close> of at least one unit the sample size lies between 1 and \<open>n\<close>. This holds for
  each of the three tables of the source.
\<close>

theorem sample_size_monotone_bounded:
  "(1 \<le> a \<and> a \<le> b
    \<longrightarrow> calculateSampleSize a \<le> calculateSampleSize b
        \<and> calculateSampleSize_index a \<le> calculateSampleSize_index b
        \<and> getSampleSize a \<le> getSampleSize b)
   \<and> (1 \<le> n
    \<longrightarrow> 1 \<le> calculateSampleSize n \<and> calculateSampleSize n \<le> n
        \<and> 1 \<le> calculateSampleSize_index n \<and> calculateSampleSize_index n \<le> n
        \<and> 1 \<le> getSampleSize n \<and> getSampleSize n \<le> n)"
  using calculateSampleSize_mono [of a b] calculateSampleSize_index_mono [of a b]
    getSampleSize_mono [of a b] calculateSampleSize_bounds [of n]
    calculateSampleSize_index_bounds [of n] getSampleSize_bounds [of n]
  by simp

theorem sample_size_monotone_bounded_witness:
  "(1::int) \<le> 10 \<and> (10::int) \<le> 11
   \<and> calculateSampleSize 10 = 4 \<and> calculateSampleSize 11 = 6
   \<and> calculateSampleSize_index 10 = 3 \<and> calculateSampleSize_index 11 = 3
   \<and> getSampleSize 10 = 8 \<and> getSampleSize 11 = 9
   \<and> calculateSampleSize 10 \<le> calculateSampleSize 11
   \<and> calculateSampleSize_index 10 \<le> calculateSampleSize_index 11
   \<and> getSampleSize 10 \<le> getSampleSize 11
   \<and> 1 \<le> calculateSampleSize 10 \<and> calculateSampleSize 10 \<le> 10"
proof -
  have h: "(1::int) \<le> 10 \<and> (10::int) \<le> 11"
    by simp
  have v: "calculateSampleSize 10 = 4" "calculateSampleSize 11 = 6"
    "calculateSampleSize_index 10 = 3" "calculateSampleSize_index 11 = 3"
    "getSampleSize 10 = 8" "getSampleSize 11 = 9"
    by (simp_all add: calculateSampleSize_def calculateSampleSize_index_def getSampleSize_def)
  from sample_size_monotone_bounded [of 10 11 10] h
  have "calculateSampleSize 10 \<le> calculateSampleSize 11
      \<and> calculateSampleSize_index 10 \<le> calculateSampleSize_index 11
      \<and> getSampleSize 10 \<le> getSampleSize 11
      \<and> 1 \<le> calculateSampleSize 10 \<and> calculateSampleSize 10 \<le> 10"
    by simp
  with h v show ?thesis
    by simp
qed

lemma parseInt_0: "parseInt ''0'' = Some 0"
  by (simp add: parseInt_def is_ws_def is_digit_def digit_val_def)

text \<open>
  Claim C5 says that for every population of zero or fewer units the sample-size
  resolver fails with \<open>InvalidPopulationSize\<close> and never returns 0. The code returns 0
  for the population 0.
\<close>

theorem calculateSampleSize_zero_counterexample:
  "calculateSampleSize 0 = 0 \<and> calculateSampleSize_index 0 = 0"
  by (simp add: calculateSampleSize_def calculateSampleSize_index_def)

text \<open>
  Claim C5, amended. For every population of zero or fewer units \<open>calculateSampleSize\<close>
  (in both of its tables) returns the sample size 0, and nothing fails; the handler of
  the total-units input and the setup screen that reads \<open>getSampleSize\<close> give the
  sample size 0 for such an input.
\<close>

theorem calculateSampleSize_nonpositive:
  "n \<le> 0
   \<longrightarrow> calculateSampleSize n = 0 \<and> calculateSampleSize_index n = 0
       \<and> (parseInt v = Some n
            \<longrightarrow> sampleSize (handleTotalUnitsChange v s) = 0 \<and> SetupScreen_sampleSize v = 0)"
  by (simp add: calculateSampleSize_def calculateSampleSize_index_def
        handleTotalUnitsChange_def SetupScreen_sampleSize_def)

theorem calculateSampleSize_nonpositive_witness:
  "(- 3::int) \<le> 0 \<and> calculateSampleSize (- 3) = 0 \<and> calculateSampleSize_index (- 3) = 0
   \<and> parseInt ''0'' = Some 0 \<and> sampleSize (handleTotalUnitsChange ''0'' empty_ledger) = 0
   \<and> SetupScreen_sampleSize ''0'' = 0"
proof -
  have h: "(- 3::int) \<le> 0" "(0::int) \<le> 0"
    by simp_all
  from calculateSampleSize_nonpositive [of "- 3" "''0''" empty_ledger]
    calculateSampleSize_nonpositive [of 0 "''0''" empty_ledger] parseInt_0 h
  show ?thesis
    by simp
qed

section \<open>Properties of the score\<close>

subsection \<open>The loop\<close>

lemma in_set_not_Nil: "x \<in> set xs \<Longrightarrow> xs \<noteq> []"
  by auto

lemma score_step_skip: "lookupDefect D k = None \<Longrightarrow> score_step D acc (k, c) = acc"
  by (simp add: score_step_def split: prod.splits)

lemma score_step_eq:
  "score_step D (ow, iw, lts) e =
     (ow + (if is_common e then counted_points D e else 0),
      iw + (if is_common e then 0 else counted_points D e),
      lts @ (if is_critical D e then [finding_text D e] else []))"
  by (cases e)
     (simp add: score_step_def is_common_def counted_points_def entry_points_def
        is_critical_def finding_text_def Let_def mult.commute
        split: option.splits prod.splits)

lemma foldl_score_step:
  "foldl (score_step D) (ow, iw, lts) es =
     (ow + sum_list (map (counted_points D) (filter is_common es)),
      iw + sum_list (map (counted_points D) (filter (\<lambda>e. \<not> is_common e) es)),
      lts @ map (finding_text D) (filter (is_critical D) es))"
proof (induction es arbitrary: ow iw lts)
  case Nil
  show ?case by simp
next
  case (Cons e es)
  show ?case
    by (simp only: foldl_Cons score_step_eq Cons.IH) (simp add: add.assoc)
qed

lemma counted_points_eq: "0 \<le> snd e \<Longrightarrow> counted_points D e = entry_points D e"
  by (cases e) (auto simp: counted_points_def entry_points_def split: option.splits)

lemma map_counted_points:
  "\<forall>e \<in> set es. 0 \<le> snd e \<Longrightarrow>
   map (counted_points D) (filter P es) = map (entry_points D) (filter P es)"
  by (rule map_cong) (auto simp: counted_points_eq)

lemma foldl_score_step_spec:
  assumes "\<forall>e \<in> set es. 0 \<le> snd e"
  shows "foldl (score_step D) (0, 0, []) es =
     (spec_commonDeductionPoints D es, spec_totalUnitDeductionPoints D es,
      map (finding_text D) (spec_criticalFindings D es))"
  by (simp add: foldl_score_step map_counted_points [OF assms]
        spec_commonDeductionPoints_def spec_totalUnitDeductionPoints_def
        spec_criticalFindings_def)

text \<open>
  The score of a ledger without negative counts, in the quantities of the
  specification.
\<close>

lemma score_spec:
  assumes "\<forall>e \<in> set (defectCounts s). 0 \<le> snd e"
  shows "score D s =
     \<lparr>outsideScore = toFixed 2 (max 0 (100 - spec_commonDeductionPoints D (defectCounts s))),
      insideScore = toFixed 2 (max 0 (100 -
        spec_extrapolatedInteriorDeduction D (defectCounts s) (sample_divisor s) (unit_factor s))),
      finalScore = toFixed 2
        (spec_finalScore D (defectCounts s) (sample_divisor s) (unit_factor s)),
      failing =
        (spec_finalScore D (defectCounts s) (sample_divisor s) (unit_factor s) < 60
         \<or> 30 \<le> spec_extrapolatedInteriorDeduction D (defectCounts s)
                   (sample_divisor s) (unit_factor s)
         \<or> 40 \<le> spec_commonDeductionPoints D (defectCounts s)
         \<or> spec_criticalFindings D (defectCounts s) \<noteq> []),
      lifeThreateningDefects =
        map (finding_text D) (spec_criticalFindings D (defectCounts s))\<rparr>"
  by (auto simp add: score_def foldl_score_step_spec [OF assms] Let_def spec_finalScore_def
        spec_extrapolatedInteriorDeduction_def sample_divisor_def unit_factor_def
        diff_diff_eq)

lemma sample_divisor_pos [simp]: "1 \<le> sampleSize s \<Longrightarrow> sample_divisor s = sampleSize s"
  by (simp add: sample_divisor_def)

lemma sample_divisor_zero [simp]: "sampleSize s = 0 \<Longrightarrow> sample_divisor s = 1"
  by (simp add: sample_divisor_def)

lemma unit_factor_pos [simp]:
  "parseInt (totalUnits s) = Some n \<Longrightarrow> 1 \<le> n \<Longrightarrow> unit_factor s = n"
  by (simp add: unit_factor_def)

lemma score_critical: "spec_criticalFindings D (defectCounts s) \<noteq> [] \<Longrightarrow> failing (score D s)"
  by (simp add: score_def foldl_score_step spec_criticalFindings_def Let_def)

lemma single_entry:
  assumes "lookupDefect D k = Some (item, defect)"
  shows "spec_commonDeductionPoints D [(k, c)]
           = (if key_location k = ''outside'' then of_int c * weight defect else 0)"
    and "spec_totalUnitDeductionPoints D [(k, c)]
           = (if key_location k = ''outside'' then 0 else of_int c * weight defect)"
    and "spec_criticalFindings D [(k, c)] = (if 0 < c \<and> lt defect then [(k, c)] else [])"
    and "finding_text D (k, c)
           = name item @ '': '' @ description defect @ '' (x'' @ show_int c @ '')''"
  using assms
  by (simp_all add: spec_commonDeductionPoints_def spec_totalUnitDeductionPoints_def
        spec_criticalFindings_def is_common_def entry_points_def is_critical_def
        finding_text_def)

subsection \<open>Evaluation\<close>

lemma toFixed_2_75: "toFixed 2 75 = ''75.00''"
proof -
  have n: "nat \<lfloor>\<bar>75::rat\<bar> * 10 ^ 2 + 1 / 2\<rfloor> = 7500" by code_simp
  have d: "digits 7500 = ''7500''" by (simp add: digits.simps)
  show ?thesis unfolding toFixed_def n Let_def d by simp
qed

lemma toFixed_2_100: "toFixed 2 100 = ''100.00''"
proof -
  have n: "nat \<lfloor>\<bar>100::rat\<bar> * 10 ^ 2 + 1 / 2\<rfloor> = 10000" by code_simp
  have d: "digits 10000 = ''10000''" by (simp add: digits.simps)
  show ?thesis unfolding toFixed_def n Let_def d by simp
qed

lemma parseInt_100: "parseInt ''100'' = Some 100"
  by (simp add: parseInt_def is_ws_def is_digit_def digit_val_def)


lemma show_int_1: "show_int 1 = ''1''"
  by (simp add: show_int_def digits.simps)

lemma key_locations:
  "key_location ''inside-2-2-severe-1-1'' = ''inside''"
  "key_location ''inside-2-2-severe-0-1'' = ''inside''"
  "key_location ''outside-1-2-severe-0'' = ''outside''"
  by (simp_all add: key_location_def to_string_def)


lemma lookup_outlet:
  "map_option (\<lambda>(i, d). (name i, d)) (lookupDefect DEFECT_DATA ''inside-2-2-severe-0-1'')
     = Some (''Wires or Conductors'',
         \<lparr>description = ''Outlet/switch damaged/unsafe'', weight = 5 / 2, lt = True\<rparr>)"
  by code_simp


lemma lookup_dangling: "lookupDefect DEFECT_DATA ''inside-2-2-severe-9-1'' = None"
  by code_simp

lemma lookup_item:
  assumes "map_option (\<lambda>(i, d). (name i, d)) (lookupDefect D k) = Some (nm, defect)"
  shows "\<exists>item. lookupDefect D k = Some (item, defect) \<and> name item = nm"
  using assms by (cases "lookupDefect D k") auto


lemma score_dangling_ledger:
  "score DEFECT_DATA dangling_ledger =
     \<lparr>outsideScore = ''100.00'', insideScore = ''100.00'', finalScore = ''100.00'',
      failing = False, lifeThreateningDefects = []\<rparr>"
  by (simp add: score_def dangling_ledger_def score_step_skip [OF lookup_dangling]
        parseInt_100 toFixed_2_100)

lemma score_scenario_C:
  "score DEFECT_DATA scenario_C =
     \<lparr>outsideScore = ''100.00'', insideScore = ''75.00'', finalScore = ''75.00'',
      failing = True,
      lifeThreateningDefects = [''Wires or Conductors: Outlet/switch damaged/unsafe (x1)'']\<rparr>"
proof -
  obtain item where l: "lookupDefect DEFECT_DATA ''inside-2-2-severe-0-1''
      = Some (item, \<lparr>description = ''Outlet/switch damaged/unsafe'', weight = 5 / 2, lt = True\<rparr>)"
    and nm: "name item = ''Wires or Conductors''"
    using lookup_item [OF lookup_outlet] by blast
  have nonneg: "\<forall>e \<in> set (defectCounts scenario_C). 0 \<le> snd e"
    by (simp add: scenario_C_def)
  have st: "defectCounts scenario_C = [(''inside-2-2-severe-0-1'', 1)]"
    "sample_divisor scenario_C = 10" "unit_factor scenario_C = 100"
    by (simp_all add: scenario_C_def sample_divisor_def unit_factor_def parseInt_100)
  show ?thesis
    by (simp add: score_spec [OF nonneg] st spec_finalScore_def
          spec_extrapolatedInteriorDeduction_def single_entry [OF l] key_locations nm
          show_int_1 toFixed_2_75 toFixed_2_100)
qed

subsection \<open>Double arithmetic\<close>








subsection \<open>The loop in double arithmetic\<close>

lemma score_step_double_eq:
  "score_step_double D (ow, iw, lts) e =
     (if occurrence D e \<and> is_common e then js_add ow (occurrence_points D e) else ow,
      if occurrence D e \<and> \<not> is_common e then js_add iw (occurrence_points D e) else iw,
      lts @ (if is_critical D e then [finding_text D e] else []))"
  by (cases e)
     (simp add: score_step_double_def is_common_def occurrence_def occurrence_points_def
        is_critical_def finding_text_def Let_def split: option.splits prod.splits)

lemma foldl_score_step_double:
  "foldl (score_step_double D) (ow, iw, lts) es =
     (foldl js_add ow
        (map (occurrence_points D) (filter (\<lambda>e. occurrence D e \<and> is_common e) es)),
      foldl js_add iw
        (map (occurrence_points D) (filter (\<lambda>e. occurrence D e \<and> \<not> is_common e) es)),
      lts @ map (finding_text D) (filter (is_critical D) es))"
proof (induction es arbitrary: ow iw lts)
  case Nil
  show ?case by simp
next
  case (Cons e es)
  show ?case
    by (simp only: foldl_Cons score_step_double_eq Cons.IH) simp
qed

lemma foldl_score_step_double_spec:
  "foldl (score_step_double D) (Fin 0, Fin 0, []) es =
     (double_commonDeductionPoints D es, double_totalUnitDeductionPoints D es,
      map (finding_text D) (spec_criticalFindings D es))"
  by (simp add: foldl_score_step_double double_commonDeductionPoints_def
        double_totalUnitDeductionPoints_def double_sum_def spec_criticalFindings_def)

text \<open>
  The score in double arithmetic, field by field, in the quantities defined above.
\<close>

lemma score_double_spec:
  "score_double D s =
     \<lparr>outsideScore = js_toFixed 2
        (js_max (Fin 0) (js_sub (Fin 100) (double_commonDeductionPoints D (defectCounts s)))),
      insideScore = js_toFixed 2
        (js_max (Fin 0) (js_sub (Fin 100)
           (double_extrapolatedInteriorDeduction D (defectCounts s)
              (sample_divisor_double s) (unit_factor_double s)))),
      finalScore = js_toFixed 2
        (double_finalScore D (defectCounts s) (sample_divisor_double s) (unit_factor_double s)),
      failing =
        (js_lt (double_finalScore D (defectCounts s) (sample_divisor_double s)
                  (unit_factor_double s)) (Fin 60)
         \<or> js_ge (double_extrapolatedInteriorDeduction D (defectCounts s)
                    (sample_divisor_double s) (unit_factor_double s)) (Fin 30)
         \<or> js_ge (double_commonDeductionPoints D (defectCounts s)) (Fin 40)
         \<or> spec_criticalFindings D (defectCounts s) \<noteq> []),
      lifeThreateningDefects =
        map (finding_text D) (spec_criticalFindings D (defectCounts s))\<rparr>"
  by (simp add: score_double_def foldl_score_step_double_spec Let_def double_finalScore_def
        double_extrapolatedInteriorDeduction_def sample_divisor_double_def
        unit_factor_double_def)






text \<open>
  What the exact score skips, fails for and reads, the score in double arithmetic does
  too: a key that names no defect adds nothing, a critical finding fails the inspection,
  the list of life-threatening defects is the same, and only the ledger, the number of
  units and the sample size are read.
\<close>

lemma score_step_double_skip:
  "lookupDefect D k = None \<Longrightarrow> score_step_double D acc (k, c) = acc"
  by (simp add: score_step_double_def split: prod.splits)

lemma score_double_skips_dangling_key:
  "lookupDefect D k = None \<Longrightarrow>
   score_double D (s\<lparr>defectCounts := es1 @ (k, c) # es2\<rparr>)
     = score_double D (s\<lparr>defectCounts := es1 @ es2\<rparr>)"
  by (simp add: score_double_def score_step_double_skip)

lemma score_double_critical:
  "spec_criticalFindings D (defectCounts s) \<noteq> [] \<Longrightarrow> failing (score_double D s)"
  by (simp add: score_double_spec)

lemma score_double_lifeThreateningDefects:
  "lifeThreateningDefects (score_double D s) = lifeThreateningDefects (score D s)"
  by (simp add: score_double_spec score_def foldl_score_step spec_criticalFindings_def Let_def
        split: prod.splits)

lemma score_double_snapshot:
  "defectCounts s = defectCounts s' \<Longrightarrow> totalUnits s = totalUnits s' \<Longrightarrow>
   sampleSize s = sampleSize s' \<Longrightarrow> score_double D s = score_double D s'"
  by (simp add: score_double_def)

subsection \<open>The example ledgers in double arithmetic\<close>















subsection \<open>The final score\<close>




subsection \<open>Passing and failing\<close>




text \<open>
  Claim C3. A ledger with an entry of positive count whose key names a defect flagged
  life-threatening has a failing score, whatever the final score is. The same holds for
  the score of \<open>index.tsx\<close>, which does not pass with such a recorded defect.
\<close>

theorem life_threatening_fails:
  "((k, c) \<in> set (defectCounts s) \<and> 0 < c \<and> lookupDefect D k = Some (item, defect)
      \<and> lt defect
    \<longrightarrow> failing (score D s))
   \<and> ((key, d) \<in> set defs \<and> rd_lt d \<and> 0 < rd_count d \<longrightarrow> \<not> pass (score_index defs))"
proof (intro conjI impI)
  assume a: "(k, c) \<in> set (defectCounts s) \<and> 0 < c
      \<and> lookupDefect D k = Some (item, defect) \<and> lt defect"
  then have "is_critical D (k, c)"
    by (simp add: is_critical_def)
  with a have "(k, c) \<in> set (spec_criticalFindings D (defectCounts s))"
    by (simp add: spec_criticalFindings_def)
  then have "spec_criticalFindings D (defectCounts s) \<noteq> []"
    by (rule in_set_not_Nil)
  then show "failing (score D s)"
    by (rule score_critical)
next
  assume b: "(key, d) \<in> set defs \<and> rd_lt d \<and> 0 < rd_count d"
  then have "(key, d) \<in> set (filter ((\<lambda>d. rd_lt d \<and> 0 < rd_count d) \<circ> snd) defs)"
    by simp
  then have "filter ((\<lambda>d. rd_lt d \<and> 0 < rd_count d) \<circ> snd) defs \<noteq> []"
    by (rule in_set_not_Nil)
  then show "\<not> pass (score_index defs)"
    by (simp add: score_index_def Let_def)
qed

theorem life_threatening_fails_witness:
  "(''inside-2-2-severe-0-1'', 1) \<in> set (defectCounts scenario_C)
   \<and> map_option (lt \<circ> snd) (lookupDefect DEFECT_DATA ''inside-2-2-severe-0-1'') = Some True
   \<and> finalScore (score DEFECT_DATA scenario_C) = ''75.00''
   \<and> failing (score DEFECT_DATA scenario_C)
   \<and> \<not> pass (score_index recorded_example)"
proof -
  let ?d = "\<lparr>description = ''Outlet/switch damaged/unsafe'', weight = 5 / 2, lt = True\<rparr>"
  let ?r = "\<lparr>rd_count = 1, rd_weight = 5 / 2, rd_lt = True, rd_description = ''Toilet missing'',
        rd_name = ''Toilet'', rd_category = ''Restroom | Kitchen | Laundry'',
        rd_severity = ''severe''\<rparr>"
  obtain item where l: "lookupDefect DEFECT_DATA ''inside-2-2-severe-0-1'' = Some (item, ?d)"
    using lookup_item [OF lookup_outlet] by blast
  have m: "(''inside-2-2-severe-0-1'', 1) \<in> set (defectCounts scenario_C)"
    by (simp add: scenario_C_def)
  have r: "(''Toilet-severe-0'', ?r) \<in> set recorded_example \<and> rd_lt ?r \<and> 0 < rd_count ?r"
    by (simp add: recorded_example_def)
  note inst = life_threatening_fails [where k = "''inside-2-2-severe-0-1''" and c = 1
      and s = scenario_C and D = DEFECT_DATA and item = item and defect = ?d
      and key = "''Toilet-severe-0''" and d = ?r and defs = recorded_example]
  from inst m l have f: "failing (score DEFECT_DATA scenario_C)"
    by simp
  from inst r have p: "\<not> pass (score_index recorded_example)"
    by blast
  from m l f p show ?thesis
    by (simp add: score_scenario_C)
qed

subsection \<open>Keys that name no defect\<close>

text \<open>
  Claim C4 says that a key whose category index, item index, severity or defect index
  does not resolve in the catalogue makes the weight lookup of the score fail with
  \<open>DanglingDefectReference\<close>, and that no score is returned. The key
  \<open>inside-2-2-severe-9-1\<close> names no defect (the item has seven severe defects), and
  the ledger that counts it five times has the score of an empty ledger.
\<close>

theorem dangling_key_counterexample:
  "lookupDefect DEFECT_DATA ''inside-2-2-severe-9-1'' = None
   \<and> defectCounts dangling_ledger = [(''inside-2-2-severe-9-1'', 5)]
   \<and> score DEFECT_DATA dangling_ledger =
       \<lparr>outsideScore = ''100.00'', insideScore = ''100.00'', finalScore = ''100.00'',
        failing = False, lifeThreateningDefects = []\<rparr>"
  by (simp add: lookup_dangling score_dangling_ledger) (simp add: dangling_ledger_def)

text \<open>
  Claim C4, amended. For every key that does not resolve in the catalogue the score
  skips the entry: it adds no weight and no critical finding, and the score returned is
  the score of the ledger without that entry. No error is raised.
\<close>

theorem dangling_key_skipped:
  "lookupDefect D k = None
   \<longrightarrow> score D (s\<lparr>defectCounts := es1 @ (k, c) # es2\<rparr>)
         = score D (s\<lparr>defectCounts := es1 @ es2\<rparr>)"
  by (simp add: score_def score_step_skip)

theorem dangling_key_skipped_witness:
  "lookupDefect DEFECT_DATA ''inside-2-2-severe-9-1'' = None
   \<and> score DEFECT_DATA
        (scenario_C\<lparr>defectCounts :=
           [(''inside-2-2-severe-0-1'', 1)] @ (''inside-2-2-severe-9-1'', 5) # []\<rparr>)
       = score DEFECT_DATA scenario_C"
proof -
  have "scenario_C\<lparr>defectCounts := [(''inside-2-2-severe-0-1'', 1)] @ []\<rparr> = scenario_C"
    by (simp add: scenario_C_def)
  with dangling_key_skipped [where D = DEFECT_DATA and k = "''inside-2-2-severe-9-1''"
      and s = scenario_C and ?es1.0 = "[(''inside-2-2-severe-0-1'', 1)]" and c = 5
      and ?es2.0 = "[]"]
    lookup_dangling
  show ?thesis
    by simp
qed

subsection \<open>The sample size 0\<close>




subsection \<open>The score as a function of the snapshot\<close>

text \<open>
  Claim C9. The score is determined by the snapshot it reads: two states with the same
  ledger of counts, the same total units and the same sample size have the same score,
  whatever else differs. The critical findings are listed in the order of the ledger's
  entries, so their order is the same on every computation from one snapshot.
\<close>

theorem score_snapshot:
  "(defectCounts s = defectCounts s' \<and> totalUnits s = totalUnits s'
      \<and> sampleSize s = sampleSize s'
    \<longrightarrow> score D s = score D s')
   \<and> lifeThreateningDefects (score D s)
       = map (finding_text D) (spec_criticalFindings D (defectCounts s))"
  by (simp add: score_def foldl_score_step spec_criticalFindings_def Let_def)

theorem score_snapshot_witness:
  "defectCounts (updateNoteText ''inside-2-2-severe-0-1'' ''scorched'' scenario_C)
     = defectCounts scenario_C
   \<and> notesMap (updateNoteText ''inside-2-2-severe-0-1'' ''scorched'' scenario_C)
     \<noteq> notesMap scenario_C
   \<and> score DEFECT_DATA (updateNoteText ''inside-2-2-severe-0-1'' ''scorched'' scenario_C)
     = score DEFECT_DATA scenario_C
   \<and> lifeThreateningDefects (score DEFECT_DATA scenario_C)
     = [''Wires or Conductors: Outlet/switch damaged/unsafe (x1)'']"
proof -
  let ?s' = "updateNoteText ''inside-2-2-severe-0-1'' ''scorched'' scenario_C"
  have h: "defectCounts ?s' = defectCounts scenario_C \<and> totalUnits ?s' = totalUnits scenario_C
      \<and> sampleSize ?s' = sampleSize scenario_C"
    by (simp add: updateNoteText_def Let_def)
  have n: "notesMap ?s' \<noteq> notesMap scenario_C"
    by (simp add: updateNoteText_def Let_def scenario_C_def)
  from score_snapshot [where s = ?s' and s' = scenario_C and D = DEFECT_DATA] h
  have "score DEFECT_DATA ?s' = score DEFECT_DATA scenario_C"
    by blast
  with h n show ?thesis
    by (simp add: score_scenario_C)
qed

end
